theory Spec2Isabelle
  imports Main "HOL-Library.Word" "HOL-Library.Char_ord" "HOL-Library.List_Lexorder"
    "HOL-Library.AList"
begin

section \<open>Admission webhook configuration (package admission, nvvalidatewebhookcfg.go)\<close>

text \<open>
  A Go \<open>error\<close> is modelled by the text its \<open>Error()\<close> method returns, a nil error by
  \<open>None\<close>. A Go \<open>[]byte\<close> that is only converted to and from \<open>string\<close> is a \<open>string\<close>.
\<close>

type_synonym error = string

subsection \<open>The CA bundle registry\<close>

record WebhookSvcLabelKey =
  TagKey :: string
  EchoKey :: string

text \<open>
  The package variables \<open>admCaBundle\<close> and \<open>svcLabelKeys\<close>, both keyed by service name.
  Reading a Go map at a missing key yields the zero value, here the empty string.
\<close>

record registry =
  admCaBundle :: "string \<rightharpoonup> string"
  svcLabelKeys :: "string \<rightharpoonup> WebhookSvcLabelKey"

definition caBundleOf :: "registry \<Rightarrow> string \<Rightarrow> string" where
  "caBundleOf g svcName = (case admCaBundle g svcName of None \<Rightarrow> [] | Some c \<Rightarrow> c)"

text \<open>
  \<open>SetCABundle\<close> stores the bundle and builds the label-key pair anew on every call
  (the md5 log line and the call of \<open>resource.GetK8sVersion\<close> leave the registry alone).
\<close>

definition SetCABundle :: "string \<Rightarrow> string \<Rightarrow> registry \<Rightarrow> registry" where
  "SetCABundle svcName caBundle g =
     g\<lparr>admCaBundle := (admCaBundle g)(svcName \<mapsto> caBundle),
       svcLabelKeys := (svcLabelKeys g)(svcName \<mapsto>
          \<lparr>TagKey = ''tag-'' @ svcName, EchoKey = ''echo-'' @ svcName\<rparr>)\<rparr>"

definition ResetCABundle :: "string \<Rightarrow> string \<Rightarrow> registry \<Rightarrow> bool \<times> registry" where
  "ResetCABundle svcName caBundle g =
     (let newCert = caBundle;
          oldCert = caBundleOf g svcName
      in if length newCert > 0 \<and> oldCert \<noteq> newCert
         then (True, g\<lparr>admCaBundle := (admCaBundle g)(svcName \<mapsto> newCert)\<rparr>)
         else (False, g))"

definition GetSvcLabelKeysForTest :: "registry \<Rightarrow> string \<Rightarrow> string \<times> string" where
  "GetSvcLabelKeysForTest g svcname =
     (case svcLabelKeys g svcname of
        Some keys \<Rightarrow> (TagKey keys, EchoKey keys)
      | None \<Rightarrow> ([], []))"

subsection \<open>Go library functions used by the file\<close>

text \<open>
  \<open>strings.Index(s, sub)\<close>: the index of the first occurrence of \<open>sub\<close> in \<open>s\<close>,
  or \<open>-1\<close> when there is none.
\<close>

fun indexFrom :: "string \<Rightarrow> string \<Rightarrow> int \<Rightarrow> int" where
  "indexFrom [] sub i = (if sub = [] then i else - 1)"
| "indexFrom (c # s) sub i =
     (if take (length sub) (c # s) = sub then i else indexFrom s sub (i + 1))"

definition strings_Index :: "string \<Rightarrow> string \<Rightarrow> int" where
  "strings_Index s sub = indexFrom s sub 0"

text \<open>
  Equality of ASCII text up to the case of the letters A to Z. On ASCII text this is what
  \<open>strings.EqualFold\<close> computes; it serves as a sample value only.
\<close>

definition toLowerASCII :: "char \<Rightarrow> char" where
  "toLowerASCII c =
     (if 65 \<le> (of_char c :: nat) \<and> (of_char c :: nat) \<le> 90
      then char_of (of_char c + (32 :: nat)) else c)"

definition asciiEqualFold :: "string \<Rightarrow> string \<Rightarrow> bool" where
  "asciiEqualFold s t = (map toLowerASCII s = map toLowerASCII t)"

text \<open>\<open>fmt.Sprintf("%d", n)\<close>: the decimal numeral of an integer.\<close>

fun digitsOf :: "nat \<Rightarrow> string" where
  "digitsOf n =
     (if n < 10 then [char_of (48 + n)]
      else digitsOf (n div 10) @ [char_of (48 + n mod 10)])"

definition sprintf_d :: "int \<Rightarrow> string" where
  "sprintf_d i = (if i < 0 then CHR ''-'' # digitsOf (nat (- i)) else digitsOf (nat i))"

subsection \<open>Kubernetes objects, as far as the file reads and writes them\<close>

text \<open>
  A pointer field that some function of the file tests against nil is an \<open>option\<close>;
  a pointer the file only ever dereferences is a plain field. A nil map is \<open>None\<close>.
  The types of \<open>admissionregistration/v1\<close> and \<open>admissionregistration/v1beta1\<close> agree
  on every field the file touches and share the records below; the two generations are
  told apart by the constructor of \<open>kobj\<close>.
\<close>

record ObjectMeta =
  meta_Name :: "string option"
  ResourceVersion :: "string option"
  Labels :: "(string \<rightharpoonup> string) option"

record LabelSelectorRequirement =
  lsr_Key :: "string option"
  lsr_Operator :: "string option"

record LabelSelector =
  MatchExpressions :: "LabelSelectorRequirement list"

record ServiceReference =
  sr_Namespace :: "string option"
  sr_Name :: "string option"
  sr_Path :: "string option"

record WebhookClientConfig =
  Url :: "string option"
  Service :: "ServiceReference option"
  CaBundle :: string

record Rule =
  ApiGroups :: "string list"
  ApiVersions :: "string list"
  Resources :: "string list"
  Scope :: "string option"

record RuleWithOperations =
  Operations :: "string list"
  rwo_Rule :: Rule

record ValidatingWebhook =
  wh_Name :: "string option"
  wh_ClientConfig :: WebhookClientConfig
  wh_Rules :: "RuleWithOperations list"
  wh_FailurePolicy :: "string option"
  wh_NamespaceSelector :: "LabelSelector option"
  wh_SideEffects :: "string option"
  wh_AdmissionReviewVersions :: "string list"
  wh_MatchPolicy :: "string option"
  wh_TimeoutSeconds :: "32 word option"

record ValidatingWebhookConfiguration =
  cfg_Metadata :: ObjectMeta
  cfg_Webhooks :: "ValidatingWebhook list"

record ServicePort =
  NodePort :: "32 word option"

record ServiceSpec =
  spec_Type :: "string option"
  spec_Ports :: "ServicePort option list"

record Service =
  svc_Metadata :: "ObjectMeta option"
  svc_Spec :: "ServiceSpec option"

record Namespace =
  ns_Metadata :: "ObjectMeta option"

text \<open>
  What \<open>global.ORCH.GetResource\<close> hands back as an \<open>interface{}\<close>: a configuration of
  one of the two generations, a (possibly nil) service or namespace pointer, or
  anything else.
\<close>

datatype kobj =
    V1Config ValidatingWebhookConfiguration
  | V1Beta1Config ValidatingWebhookConfiguration
  | ServiceObj "Service option"
  | NamespaceObj "Namespace option"
  | OtherObj

text \<open>The generation-neutral webhook of package \<open>resource\<close>, filled field by field.\<close>

record K8sAdmRegWebhook =
  reg_Name :: "string option"
  reg_AdmissionReviewVersions :: "string list"
  reg_ClientConfig :: WebhookClientConfig
  reg_Rules :: "RuleWithOperations list"
  reg_FailurePolicy :: "string option"
  reg_NamespaceSelector :: "LabelSelector option"
  reg_SideEffects :: "string option"

subsection \<open>The resource store\<close>

text \<open>
  \<open>global.ORCH\<close> is an external collaborator. Each of its answers may depend on
  everything that happened before, so the store is a family of reply functions over the
  history of calls, and the state threaded through the program is that history. A claim
  about store calls is a claim about the history.
\<close>

datatype rsc_type =
    RscTypeNamespace
  | RscTypeService
  | RscTypeValidatingWebhookConfiguration

datatype event =
    GetEv rsc_type string string "error + kobj"
  | AddEv rsc_type kobj "error option"
  | UpdateEv rsc_type kobj "error option"
  | DeleteEv rsc_type kobj "error option"

type_synonym history = "event list"

record orch =
  getReply :: "history \<Rightarrow> rsc_type \<Rightarrow> string \<Rightarrow> string \<Rightarrow> error + kobj"
  addReply :: "history \<Rightarrow> rsc_type \<Rightarrow> kobj \<Rightarrow> error option"
  updateReply :: "history \<Rightarrow> rsc_type \<Rightarrow> kobj \<Rightarrow> error option"
  deleteReply :: "history \<Rightarrow> rsc_type \<Rightarrow> kobj \<Rightarrow> error option"

definition GetResource ::
  "orch \<Rightarrow> rsc_type \<Rightarrow> string \<Rightarrow> string \<Rightarrow> history \<Rightarrow> (error + kobj) \<times> history" where
  "GetResource st rt ns name h =
     (let r = getReply st h rt ns name in (r, h @ [GetEv rt ns name r]))"

definition AddResource :: "orch \<Rightarrow> rsc_type \<Rightarrow> kobj \<Rightarrow> history \<Rightarrow> error option \<times> history" where
  "AddResource st rt obj h = (let r = addReply st h rt obj in (r, h @ [AddEv rt obj r]))"

definition UpdateResource :: "orch \<Rightarrow> rsc_type \<Rightarrow> kobj \<Rightarrow> history \<Rightarrow> error option \<times> history" where
  "UpdateResource st rt obj h = (let r = updateReply st h rt obj in (r, h @ [UpdateEv rt obj r]))"

definition DeleteResource :: "orch \<Rightarrow> rsc_type \<Rightarrow> kobj \<Rightarrow> history \<Rightarrow> error option \<times> history" where
  "DeleteResource st rt obj h = (let r = deleteReply st h rt obj in (r, h @ [DeleteEv rt obj r]))"

fun isWrite :: "event \<Rightarrow> bool" where
  "isWrite (GetEv rt ns name r) = False"
| "isWrite (AddEv rt obj r) = True"
| "isWrite (UpdateEv rt obj r) = True"
| "isWrite (DeleteEv rt obj r) = True"

text \<open>
  A Go panic (a failed type assertion without the \<open>ok\<close> form, a nil dereference) ends
  the call; it is an outcome of its own.
\<close>

datatype 'a outcome = Panic | Return 'a

subsection \<open>The declared configuration and the package's surroundings\<close>

record ClientConfig =
  ClientMode :: string
  ServiceName :: string
  Path :: string
  Port :: "32 word"

record WebhookInfo =
  Name :: string
  ClientConfig :: ClientConfig
  FailurePolicy :: string
  TimeoutSeconds :: "32 word"

record ValidatingWebhookConfigInfo =
  info_Name :: string
  WebhooksInfo :: "WebhookInfo list"

record ValidateWebhookSvcInfo =
  Status :: int
  SvcNodePort :: "32 word"
  SvcType :: string
  LabelTag :: string
  LabelEcho :: string

record CLUSAdmCtrlState =
  Enable :: bool
  Uri :: string

text \<open>
  The string constants of packages \<open>resource\<close> and \<open>share\<close> that the file names. Their
  declarations are not part of the file; they are parameters of the model.
\<close>

record resource_consts =
  NvAdmValidatingName :: string
  NvCrdValidatingName :: string
  NvAdmValidatingWebhookName :: string
  NvCrdValidatingWebhookName :: string
  NvStatusValidatingWebhookName :: string
  NvAdmSvcNamespace :: string
  NsSelectorKeySkipNV :: string
  NsSelectorKeyStatusNV :: string
  NsSelectorKeyCtrlPlane :: string
  NsSelectorOpNotExist :: string
  NsSelectorOpExists :: string
  CtrlPlaneOpInWhExpr :: string
  K8sApiVersionV1 :: string
  K8sApiVersionV1Beta1 :: string
  K8sApiVersionV1Beta2 :: string
  Ignore :: string
  ServiceTypeClusterIP :: string
  ServiceTypeNodePort :: string
  AdmClientModeUrl :: string

text \<open>One entry of the static per-rule tables; its sets are given as \<open>ToStringSlice\<close> lists them.\<close>

record NvAdmRegRuleSetting =
  rs_ApiGroups :: "string list"
  rs_Operations :: "string list"
  rs_Resources :: "string list"
  rs_Scope :: string

text \<open>
  The rest of the surroundings: the server version \<open>resource.GetK8sVersion()\<close>, the
  selector predicate \<open>resource.IsK8sNvWebhookConfigured\<close>, the wildcard match
  \<open>share.EqualMatch\<close>, the per-rule tables and the two REST status codes of package
  \<open>api\<close>. \<open>strings.EqualFold\<close> of the Go library (equality of UTF-8 text under Unicode
  simple case folding) is a parameter as well.
\<close>

record platform =
  GetK8sVersion :: "int \<times> int"
  IsK8sNvWebhookConfigured :: "string \<Rightarrow> string \<Rightarrow> K8sAdmRegWebhook \<Rightarrow> bool \<Rightarrow> bool"
  EqualMatch :: "string \<Rightarrow> string \<Rightarrow> bool"
  EqualFold :: "string \<Rightarrow> string \<Rightarrow> bool"
  AdmResForOpsSettings :: "NvAdmRegRuleSetting list"
  CrdResForOpsSettings :: "NvAdmRegRuleSetting list"
  StatusResForOpsSettings :: "NvAdmRegRuleSetting list"
  RESTErrWebhookSvcForAdmCtrl :: int
  RESTErrNvPermission :: int

text \<open>
  Modelled from the spec: the three side-effect annotations \<open>resource.SideEffectNone\<close>,
  \<open>resource.SideEffectNoneOnDryRun\<close> and \<open>resource.SideEffectSome\<close>, whose declarations
  are not part of the file; the spec spells them "None", "NoneOnDryRun" and "Some".
\<close>

definition SideEffectNone :: string where
  "SideEffectNone = ''None''"

definition SideEffectNoneOnDryRun :: string where
  "SideEffectNoneOnDryRun = ''NoneOnDryRun''"

definition SideEffectSome :: string where
  "SideEffectSome = ''Some''"

text \<open>\<open>k8s.AllNamespaces\<close> of the client library is the empty namespace.\<close>

definition AllNamespaces :: string where
  "AllNamespaces = []"

text \<open>The package variables set by \<open>InitK8sNsSelectorInfo\<close> and \<open>UpdateAllowedK8sNs\<close>.\<close>

record nsSelectorInfo =
  defAllowedNamespaces :: "string list"
  allowedNamespaces :: "string list"
  allowedNamespacesWild :: "string list"
  nsSelectorValue :: string

subsection \<open>Namespace labels: VerifyK8sNs and workSingleK8sNsLabels\<close>

text \<open>
  The map \<open>labelKeys\<close> of \<open>VerifyK8sNs\<close> (\<open>map[string]*bool\<close>): a key maps to
  \<open>Some True\<close> (the label should exist), \<open>Some False\<close> (it should not) or \<open>None\<close>
  (the nil pointer: it could exist or not). It is kept as an association list so that
  the two \<open>range\<close> loops can walk it; the two keys of the map literal are different
  constants (Go rejects a literal with a repeated constant key).
\<close>

type_synonym labelKeys = "(string \<times> bool option) list"

definition desiredLabelKeys ::
  "resource_consts \<Rightarrow> platform \<Rightarrow> nsSelectorInfo \<Rightarrow> bool \<Rightarrow> string \<Rightarrow> labelKeys" where
  "desiredLabelKeys rc pf si admCtrlEnabled nsName =
     (let shouldExist = True;
          shouldNotExist = False;
          labelKeys0 = [(NsSelectorKeySkipNV rc, Some shouldNotExist),
                        (NsSelectorKeyStatusNV rc, Some shouldNotExist)]
      in if admCtrlEnabled then
           (let labelKeys1 =
                  (if CtrlPlaneOpInWhExpr rc = NsSelectorOpNotExist rc then
                     (let lk = AList.update (NsSelectorKeyCtrlPlane rc) (Some shouldNotExist) labelKeys0
                      in if nsName \<in> set (defAllowedNamespaces si)
                         then AList.update (NsSelectorKeyCtrlPlane rc) None lk
                         else lk)
                   else labelKeys0);
                labelKeys2 =
                  (if nsName \<in> set (allowedNamespaces si)
                   then AList.update (NsSelectorKeySkipNV rc) (Some shouldExist) labelKeys1
                   else if list_ex (\<lambda>allowedNsWild. EqualMatch pf allowedNsWild nsName)
                             (allowedNamespacesWild si)
                   then AList.update (NsSelectorKeySkipNV rc) (Some shouldExist) labelKeys1
                   else labelKeys1)
            in if NvAdmSvcNamespace rc = nsName
               then AList.update (NsSelectorKeyStatusNV rc) (Some shouldExist) labelKeys2
               else labelKeys2)
         else labelKeys0)"

text \<open>The loop that ends \<open>VerifyK8sNs\<close>: is some decided key present when it should not be, or absent when it should be?\<close>

definition labelMismatch :: "labelKeys \<Rightarrow> (string \<rightharpoonup> string) \<Rightarrow> bool" where
  "labelMismatch labelKeys nsLabels =
     list_ex (\<lambda>(labelKey, shouldExist).
        case shouldExist of
          None \<Rightarrow> False
        | Some b \<Rightarrow> (let exists = (nsLabels labelKey \<noteq> None)
                    in (b \<and> \<not> exists) \<or> (\<not> b \<and> exists))) labelKeys"

text \<open>The loop of \<open>workSingleK8sNsLabels\<close> over \<open>labelKeys\<close>, on the labels just read and the flag \<open>needUpdate\<close>.\<close>

fun applyLabelKeys ::
  "string \<Rightarrow> labelKeys \<Rightarrow> (string \<rightharpoonup> string) \<times> bool \<Rightarrow> (string \<rightharpoonup> string) \<times> bool" where
  "applyLabelKeys v [] acc = acc"
| "applyLabelKeys v ((labelKey, shouldExist) # rest) (labels, needUpdate) =
     (case shouldExist of
        None \<Rightarrow> applyLabelKeys v rest (labels, needUpdate)
      | Some b \<Rightarrow>
          (let exists = (labels labelKey \<noteq> None)
           in if b \<and> \<not> exists then applyLabelKeys v rest (labels(labelKey \<mapsto> v), True)
              else if \<not> b \<and> exists then applyLabelKeys v rest (labels(labelKey := None), True)
              else applyLabelKeys v rest (labels, needUpdate)))"

definition workSingleK8sNsLabels ::
  "orch \<Rightarrow> nsSelectorInfo \<Rightarrow> string \<Rightarrow> labelKeys \<Rightarrow> history \<Rightarrow> (error option \<times> history) outcome" where
  "workSingleK8sNsLabels st si nsName labelKeys h =
     (case GetResource st RscTypeNamespace [] nsName h of
        (Inl err, h1) \<Rightarrow> Return (Some err, h1)
      | (Inr obj, h1) \<Rightarrow>
          (case obj of
             NamespaceObj nsObj \<Rightarrow>
               (case nsObj of
                  None \<Rightarrow> Return (Some ''ns/metadata is nil'', h1)
                | Some ns \<Rightarrow>
                    (case ns_Metadata ns of
                       None \<Rightarrow> Return (Some ''ns/metadata is nil'', h1)
                     | Some md \<Rightarrow>
                         (let labels0 = (case Labels md of None \<Rightarrow> Map.empty | Some l \<Rightarrow> l);
                              (labels1, needUpdate) =
                                 applyLabelKeys (nsSelectorValue si) labelKeys (labels0, False)
                          in if needUpdate then
                               (case UpdateResource st RscTypeNamespace
                                       (NamespaceObj (Some (ns\<lparr>ns_Metadata :=
                                           Some (md\<lparr>Labels := Some labels1\<rparr>)\<rparr>))) h1 of
                                  (Some err, h2) \<Rightarrow> Return (Some err, h2)
                                | (None, h2) \<Rightarrow> Return (None, h2))
                             else Return (None, h1))))
           | _ \<Rightarrow> Panic))"

text \<open>\<open>VerifyK8sNs\<close> returns nothing and drops the error of \<open>workSingleK8sNsLabels\<close>; what is left is the history.\<close>

definition VerifyK8sNs ::
  "orch \<Rightarrow> resource_consts \<Rightarrow> platform \<Rightarrow> nsSelectorInfo \<Rightarrow> bool \<Rightarrow> string \<Rightarrow>
   (string \<rightharpoonup> string) option \<Rightarrow> history \<Rightarrow> history outcome" where
  "VerifyK8sNs st rc pf si admCtrlEnabled nsName nsLabels h =
     (let nsLabels' = (case nsLabels of None \<Rightarrow> Map.empty | Some m \<Rightarrow> m);
          labelKeys = desiredLabelKeys rc pf si admCtrlEnabled nsName
      in if labelMismatch labelKeys nsLabels' then
           (case workSingleK8sNsLabels st si nsName labelKeys h of
              Panic \<Rightarrow> Panic
            | Return (err, h') \<Rightarrow> Return h')
         else Return h)"

subsection \<open>IsNsSelectorSupported and GetValidateWebhookSvcInfo\<close>

definition IsNsSelectorSupported :: "platform \<Rightarrow> bool" where
  "IsNsSelectorSupported pf =
     (case GetK8sVersion pf of (k8sVersionMajor, k8sVersionMinor) \<Rightarrow>
        k8sVersionMajor = 1 \<and> k8sVersionMinor \<ge> 14)"

text \<open>The first port of the list that is non-nil and has a node port.\<close>

fun firstNodePort :: "ServicePort option list \<Rightarrow> 32 word option" where
  "firstNodePort [] = None"
| "firstNodePort (ports # rest) =
     (case ports of
        None \<Rightarrow> firstNodePort rest
      | Some pt \<Rightarrow> (case NodePort pt of None \<Rightarrow> firstNodePort rest | Some n \<Rightarrow> Some n))"

definition lookupLabel :: "ObjectMeta \<Rightarrow> string \<Rightarrow> string option" where
  "lookupLabel md k = (case Labels md of None \<Rightarrow> None | Some l \<Rightarrow> l k)"

text \<open>The two label reads, and the search for a node port that ends the function.\<close>

definition readSvcLabels ::
  "ObjectMeta \<Rightarrow> WebhookSvcLabelKey \<Rightarrow> ValidateWebhookSvcInfo \<Rightarrow> ValidateWebhookSvcInfo" where
  "readSvcLabels md keys svcInfo =
     (let i1 = (case lookupLabel md (TagKey keys) of
                  Some tag \<Rightarrow> svcInfo\<lparr>LabelTag := tag\<rparr>
                | None \<Rightarrow> svcInfo)
      in case lookupLabel md (EchoKey keys) of
           Some echo \<Rightarrow> i1\<lparr>LabelEcho := echo\<rparr>
         | None \<Rightarrow> i1)"

definition withNodePort ::
  "resource_consts \<Rightarrow> Service \<Rightarrow> ValidateWebhookSvcInfo \<Rightarrow> ValidateWebhookSvcInfo" where
  "withNodePort rc svc svcInfo =
     (case svc_Spec svc of
        None \<Rightarrow> svcInfo
      | Some sp \<Rightarrow>
          if spec_Type sp = Some (ServiceTypeNodePort rc) then
            (case firstNodePort (spec_Ports sp) of
               Some n \<Rightarrow> svcInfo\<lparr>SvcNodePort := n, SvcType := ServiceTypeNodePort rc\<rparr>
             | None \<Rightarrow> svcInfo)
          else svcInfo)"

text \<open>
  The result is the pair (error, svcInfo). With label keys on record for the service,
  \<open>svc.Metadata.Labels\<close> is read without a nil test on \<open>svc.Metadata\<close>.
\<close>

definition GetValidateWebhookSvcInfo ::
  "orch \<Rightarrow> resource_consts \<Rightarrow> platform \<Rightarrow> registry \<Rightarrow> string \<Rightarrow> history \<Rightarrow>
   ((error option \<times> ValidateWebhookSvcInfo) \<times> history) outcome" where
  "GetValidateWebhookSvcInfo st rc pf g svcname h =
     (let svcInfo = \<lparr>Status = RESTErrWebhookSvcForAdmCtrl pf, SvcNodePort = 443,
                      SvcType = ServiceTypeClusterIP rc, LabelTag = [], LabelEcho = []\<rparr>
      in case GetResource st RscTypeService (NvAdmSvcNamespace rc) svcname h of
           (Inl err, h1) \<Rightarrow>
             Return ((Some err,
                if strings_Index err '' 403 '' > 0 \<and> strings_Index err ''forbidden'' > 0
                then svcInfo\<lparr>Status := RESTErrNvPermission pf\<rparr> else svcInfo), h1)
         | (Inr obj, h1) \<Rightarrow>
             (case obj of
                ServiceObj (Some svc) \<Rightarrow>
                  (case svcLabelKeys g svcname of
                     None \<Rightarrow> Return ((None, withNodePort rc svc svcInfo), h1)
                   | Some keys \<Rightarrow>
                       (case svc_Metadata svc of
                          None \<Rightarrow> Panic
                        | Some md \<Rightarrow>
                            Return ((None, withNodePort rc svc (readSvcLabels md keys svcInfo)), h1)))
              | _ \<Rightarrow> Return ((None, svcInfo), h1)))"

subsection \<open>The read phase: isK8sConfiguredAsExpected\<close>

text \<open>
  Both branches of the source copy a webhook of the store into the generation-neutral
  form; only the \<open>v1\<close> branch copies \<open>AdmissionReviewVersions\<close>.
\<close>

definition fromV1Webhook :: "ValidatingWebhook \<Rightarrow> K8sAdmRegWebhook" where
  "fromV1Webhook wh =
     \<lparr>reg_Name = wh_Name wh,
      reg_AdmissionReviewVersions = wh_AdmissionReviewVersions wh,
      reg_ClientConfig = wh_ClientConfig wh,
      reg_Rules = wh_Rules wh,
      reg_FailurePolicy = wh_FailurePolicy wh,
      reg_NamespaceSelector = wh_NamespaceSelector wh,
      reg_SideEffects = wh_SideEffects wh\<rparr>"

definition fromV1Beta1Webhook :: "ValidatingWebhook \<Rightarrow> K8sAdmRegWebhook" where
  "fromV1Beta1Webhook wh =
     \<lparr>reg_Name = wh_Name wh,
      reg_AdmissionReviewVersions = [],
      reg_ClientConfig = wh_ClientConfig wh,
      reg_Rules = wh_Rules wh,
      reg_FailurePolicy = wh_FailurePolicy wh,
      reg_NamespaceSelector = wh_NamespaceSelector wh,
      reg_SideEffects = wh_SideEffects wh\<rparr>"

text \<open>
  \<open>fmt.Sprintf("https://%s.%s.svc:%d%s", svcName, resource.NvAdmSvcNamespace, port, path)\<close>;
  the port is an \<open>int32\<close>.
\<close>

definition expectedUrlOf :: "resource_consts \<Rightarrow> string \<Rightarrow> 32 word \<Rightarrow> string \<Rightarrow> string" where
  "expectedUrlOf rc svcName port path =
     ''https://'' @ svcName @ ''.'' @ NvAdmSvcNamespace rc @ ''.svc:'' @ sprintf_d (sint port) @ path"

text \<open>
  The side-effect annotation the read phase expects (the variable \<open>sideEffects\<close>), and
  the test it is put to.
\<close>

definition expectedSideEffects :: "resource_consts \<Rightarrow> platform \<Rightarrow> string \<Rightarrow> string" where
  "expectedSideEffects rc pf name =
     (case GetK8sVersion pf of (k8sVersionMajor, k8sVersionMinor) \<Rightarrow>
        if name = NvCrdValidatingName rc then
          (if k8sVersionMajor = 1 \<and> k8sVersionMinor \<ge> 22
           then SideEffectNoneOnDryRun else SideEffectSome)
        else SideEffectNone)"

definition sideEffectsAsExpected :: "platform \<Rightarrow> string option \<Rightarrow> string \<Rightarrow> bool" where
  "sideEffectsAsExpected pf whSideEffects sideEffects =
     (case GetK8sVersion pf of (k8sVersionMajor, k8sVersionMinor) \<Rightarrow>
        k8sVersionMinor \<le> 11 \<or>
        (k8sVersionMinor > 11 \<and> whSideEffects \<noteq> None \<and> whSideEffects = Some sideEffects))"

text \<open>
  The body of the inner loop for a webhook of the store \<open>wh\<close> and the declared webhook
  \<open>whInfo\<close> of the same name: the value of \<open>whMatched\<close> at the \<open>break\<close>.
\<close>

definition whMatched ::
  "resource_consts \<Rightarrow> platform \<Rightarrow> registry \<Rightarrow> bool \<Rightarrow> string \<Rightarrow> K8sAdmRegWebhook \<Rightarrow>
   WebhookInfo \<Rightarrow> bool" where
  "whMatched rc pf g useApiV1 name wh whInfo =
     (let nsSelectorSupported = IsNsSelectorSupported pf;
          clientInUrlMode = (ClientMode (ClientConfig whInfo) = AdmClientModeUrl rc)
      in if \<not> useApiV1 \<or> reg_AdmissionReviewVersions wh = [K8sApiVersionV1Beta1 rc] then
           (let clientCfg = reg_ClientConfig wh
            in if (\<not> clientInUrlMode \<and> Service clientCfg \<noteq> None)
                  \<or> (clientInUrlMode \<and> Url clientCfg \<noteq> None) then
                 (let sideEffects = expectedSideEffects rc pf name
                  in if sideEffectsAsExpected pf (reg_SideEffects wh) sideEffects then
                       (let svcName = ServiceName (ClientConfig whInfo)
                        in if length (caBundleOf g svcName) = 0
                              \<or> caBundleOf g svcName = CaBundle clientCfg then
                             (if clientInUrlMode then
                                (let expectedUrl = expectedUrlOf rc svcName
                                        (Port (ClientConfig whInfo)) (Path (ClientConfig whInfo))
                                 in (case Url clientCfg of
                                       None \<Rightarrow> False
                                     | Some u \<Rightarrow>
                                         EqualFold pf u expectedUrl
                                         \<and> IsK8sNvWebhookConfigured pf (Name whInfo)
                                             (FailurePolicy whInfo) wh nsSelectorSupported))
                              else
                                (case Service clientCfg of
                                   None \<Rightarrow> False
                                 | Some sref \<Rightarrow>
                                     sr_Namespace sref = Some (NvAdmSvcNamespace rc)
                                     \<and> sr_Name sref = Some svcName
                                     \<and> (case sr_Path sref of
                                          None \<Rightarrow> False
                                        | Some p \<Rightarrow>
                                            EqualFold pf p (Path (ClientConfig whInfo))
                                            \<and> IsK8sNvWebhookConfigured pf (Name whInfo)
                                                (FailurePolicy whInfo) wh nsSelectorSupported)))
                           else False)
                     else False)
               else False)
         else False)"

text \<open>
  The outer loop: every webhook of the store must have a declared webhook of its name
  (the first one is taken) and match it.
\<close>

definition whFound ::
  "resource_consts \<Rightarrow> platform \<Rightarrow> registry \<Rightarrow> bool \<Rightarrow> ValidatingWebhookConfigInfo \<Rightarrow>
   K8sAdmRegWebhook \<Rightarrow> bool" where
  "whFound rc pf g useApiV1 k8sResInfo wh =
     (case find (\<lambda>whInfo. reg_Name wh = Some (Name whInfo)) (WebhooksInfo k8sResInfo) of
        None \<Rightarrow> False
      | Some whInfo \<Rightarrow> whMatched rc pf g useApiV1 (info_Name k8sResInfo) wh whInfo)"

text \<open>
  The result is the tuple (found, matchedCfg, verRead, error). Dereferencing a nil
  \<open>ResourceVersion\<close> panics.
\<close>

definition compareConfig ::
  "resource_consts \<Rightarrow> platform \<Rightarrow> registry \<Rightarrow> bool \<Rightarrow> ValidatingWebhookConfigInfo \<Rightarrow>
   ValidatingWebhookConfiguration \<Rightarrow> (bool \<times> bool \<times> string \<times> error option) outcome" where
  "compareConfig rc pf g useApiV1 k8sResInfo k8sConfig =
     (case ResourceVersion (cfg_Metadata k8sConfig) of
        None \<Rightarrow> Panic
      | Some verRead \<Rightarrow>
          if length (cfg_Webhooks k8sConfig) \<noteq> length (WebhooksInfo k8sResInfo)
          then Return (True, False, verRead, None)
          else
            (let webhooks = map (if useApiV1 then fromV1Webhook else fromV1Beta1Webhook)
                              (cfg_Webhooks k8sConfig)
             in if list_all (whFound rc pf g useApiV1 k8sResInfo) webhooks
                then Return (True, True, verRead, None)
                else Return (True, False, verRead, None)))"

definition isK8sConfiguredAsExpected ::
  "orch \<Rightarrow> resource_consts \<Rightarrow> platform \<Rightarrow> registry \<Rightarrow> ValidatingWebhookConfigInfo \<Rightarrow>
   history \<Rightarrow> ((bool \<times> bool \<times> string \<times> error option) \<times> history) outcome" where
  "isK8sConfiguredAsExpected st rc pf g k8sResInfo h =
     (if info_Name k8sResInfo = NvAdmValidatingName rc
         \<or> info_Name k8sResInfo = NvCrdValidatingName rc then
        (case GetResource st RscTypeValidatingWebhookConfiguration AllNamespaces
                (info_Name k8sResInfo) h of
           (Inl err, h1) \<Rightarrow> Return ((False, False, [], Some err), h1)
         | (Inr obj, h1) \<Rightarrow>
             (case obj of
                V1Config k8sConfig \<Rightarrow>
                  (case compareConfig rc pf g True k8sResInfo k8sConfig of
                     Panic \<Rightarrow> Panic | Return r \<Rightarrow> Return (r, h1))
              | V1Beta1Config k8sConfig \<Rightarrow>
                  (case compareConfig rc pf g False k8sResInfo k8sConfig of
                     Panic \<Rightarrow> Panic | Return r \<Rightarrow> Return (r, h1))
              | _ \<Rightarrow>
                  Return ((True, False, [],
                     Some (''type assertion failed('' @ sprintf_d (fst (GetK8sVersion pf)) @ ''.''
                           @ sprintf_d (snd (GetK8sVersion pf)) @ '')'')), h1)))
      else Return ((False, False, [], Some ''Unsupported admission control type''), h))"

subsection \<open>The write phase: configK8sAdmCtrlValidateResource\<close>

definition K8sResOpCreate :: string where
  "K8sResOpCreate = ''create''"

definition K8sResOpUpdate :: string where
  "K8sResOpUpdate = ''update''"

definition K8sResOpDelete :: string where
  "K8sResOpDelete = ''delete''"

text \<open>
  The \<open>switch whInfo.Name\<close> of both branches; they differ in the side-effect annotation
  of the CRD webhook only, which is the parameter \<open>crdSideEffects\<close>. The result is
  (nvOpResources, sideEffects, nsSelectorKey, nsSelectorOp, failurePolicy).
\<close>

definition whSwitch ::
  "resource_consts \<Rightarrow> platform \<Rightarrow> string \<Rightarrow> WebhookInfo \<Rightarrow>
   NvAdmRegRuleSetting list \<times> string \<times> string \<times> string \<times> string" where
  "whSwitch rc pf crdSideEffects whInfo =
     (if Name whInfo = NvAdmValidatingWebhookName rc then
        (AdmResForOpsSettings pf, SideEffectNone, NsSelectorKeySkipNV rc,
         NsSelectorOpNotExist rc, FailurePolicy whInfo)
      else if Name whInfo = NvCrdValidatingWebhookName rc then
        (CrdResForOpsSettings pf, crdSideEffects, [], [], Ignore rc)
      else if Name whInfo = NvStatusValidatingWebhookName rc then
        (StatusResForOpsSettings pf, SideEffectNone, NsSelectorKeyStatusNV rc,
         NsSelectorOpExists rc, Ignore rc)
      else ([], SideEffectNone, [], [], []))"

definition mkRule :: "resource_consts \<Rightarrow> bool \<Rightarrow> NvAdmRegRuleSetting \<Rightarrow> RuleWithOperations" where
  "mkRule rc withScope opRes =
     \<lparr>Operations = sort (rs_Operations opRes),
      rwo_Rule = \<lparr>ApiGroups = rs_ApiGroups opRes,
                  ApiVersions = [K8sApiVersionV1 rc, K8sApiVersionV1Beta1 rc, K8sApiVersionV1Beta2 rc],
                  Resources = sort (rs_Resources opRes),
                  Scope = (if withScope then Some (rs_Scope opRes) else None)\<rparr>\<rparr>"

definition mkNamespaceSelector :: "string \<Rightarrow> string \<Rightarrow> LabelSelector option" where
  "mkNamespaceSelector nsSelectorKey nsSelectorOp =
     (if nsSelectorKey \<noteq> [] \<and> nsSelectorOp \<noteq> [] then
        Some \<lparr>MatchExpressions = [\<lparr>lsr_Key = Some nsSelectorKey, lsr_Operator = Some nsSelectorOp\<rparr>]\<rparr>
      else None)"

definition mkClientConfig :: "resource_consts \<Rightarrow> registry \<Rightarrow> WebhookInfo \<Rightarrow> WebhookClientConfig" where
  "mkClientConfig rc g whInfo =
     (let svcName = ServiceName (ClientConfig whInfo)
      in if ClientMode (ClientConfig whInfo) = AdmClientModeUrl rc then
           \<lparr>Url = Some (expectedUrlOf rc svcName (Port (ClientConfig whInfo)) (Path (ClientConfig whInfo))),
            Service = None,
            CaBundle = caBundleOf g svcName\<rparr>
         else
           \<lparr>Url = None,
            Service = Some \<lparr>sr_Namespace = Some (NvAdmSvcNamespace rc), sr_Name = Some svcName,
                            sr_Path = Some (Path (ClientConfig whInfo))\<rparr>,
            CaBundle = caBundleOf g svcName\<rparr>)"

definition mkV1Webhook :: "resource_consts \<Rightarrow> platform \<Rightarrow> registry \<Rightarrow> WebhookInfo \<Rightarrow> ValidatingWebhook" where
  "mkV1Webhook rc pf g whInfo =
     (case whSwitch rc pf SideEffectNoneOnDryRun whInfo of
        (nvOpResources, sideEffects, nsSelectorKey, nsSelectorOp, failurePolicy) \<Rightarrow>
          \<lparr>wh_Name = Some (Name whInfo),
           wh_ClientConfig = mkClientConfig rc g whInfo,
           wh_Rules = map (mkRule rc True) nvOpResources,
           wh_FailurePolicy = Some failurePolicy,
           wh_NamespaceSelector = mkNamespaceSelector nsSelectorKey nsSelectorOp,
           wh_SideEffects = Some sideEffects,
           wh_AdmissionReviewVersions = [K8sApiVersionV1Beta1 rc],
           wh_MatchPolicy = Some ''Exact'',
           wh_TimeoutSeconds = Some (TimeoutSeconds whInfo)\<rparr>)"

definition mkV1Beta1Webhook :: "resource_consts \<Rightarrow> platform \<Rightarrow> registry \<Rightarrow> WebhookInfo \<Rightarrow> ValidatingWebhook" where
  "mkV1Beta1Webhook rc pf g whInfo =
     (case whSwitch rc pf SideEffectSome whInfo of
        (nvOpResources, sideEffects, nsSelectorKey, nsSelectorOp, failurePolicy) \<Rightarrow>
          \<lparr>wh_Name = Some (Name whInfo),
           wh_ClientConfig = mkClientConfig rc g whInfo,
           wh_Rules = map (mkRule rc (IsNsSelectorSupported pf)) nvOpResources,
           wh_FailurePolicy = Some failurePolicy,
           wh_NamespaceSelector =
             (if IsNsSelectorSupported pf then mkNamespaceSelector nsSelectorKey nsSelectorOp
              else None),
           wh_SideEffects =
             (if fst (GetK8sVersion pf) = 1 \<and> snd (GetK8sVersion pf) > 11
              then Some sideEffects else None),
           wh_AdmissionReviewVersions = [],
           wh_MatchPolicy = None,
           wh_TimeoutSeconds = None\<rparr>)"

text \<open>
  The loop over \<open>k8sResInfo.WebhooksInfo\<close>: it returns the error "empty caBundle" at the
  first webhook whose service has no bundle in the registry.
\<close>

fun buildWebhooks ::
  "registry \<Rightarrow> (WebhookInfo \<Rightarrow> ValidatingWebhook) \<Rightarrow> WebhookInfo list \<Rightarrow>
   error + ValidatingWebhook list" where
  "buildWebhooks g mk [] = Inr []"
| "buildWebhooks g mk (whInfo # rest) =
     (if length (caBundleOf g (ServiceName (ClientConfig whInfo))) = 0 then Inl ''empty caBundle''
      else (case buildWebhooks g mk rest of
              Inl e \<Rightarrow> Inl e
            | Inr webhooks \<Rightarrow> Inr (mk whInfo # webhooks)))"

definition namedMeta :: "string \<Rightarrow> string option \<Rightarrow> ObjectMeta" where
  "namedMeta name ver = \<lparr>meta_Name = Some name, ResourceVersion = ver, Labels = None\<rparr>"

definition configK8sAdmCtrlValidateResource ::
  "orch \<Rightarrow> resource_consts \<Rightarrow> platform \<Rightarrow> registry \<Rightarrow> string \<Rightarrow> string \<Rightarrow>
   ValidatingWebhookConfigInfo \<Rightarrow> history \<Rightarrow> error option \<times> history" where
  "configK8sAdmCtrlValidateResource st rc pf g op resVersion k8sResInfo h =
     (case GetK8sVersion pf of (k8sVersionMajor, k8sVersionMinor) \<Rightarrow>
      if op = K8sResOpDelete then
        (if k8sVersionMajor = 1 \<and> k8sVersionMinor \<ge> 22 then
           DeleteResource st RscTypeValidatingWebhookConfiguration
             (V1Config \<lparr>cfg_Metadata = namedMeta (info_Name k8sResInfo) None, cfg_Webhooks = []\<rparr>) h
         else
           DeleteResource st RscTypeValidatingWebhookConfiguration
             (V1Beta1Config \<lparr>cfg_Metadata = namedMeta (info_Name k8sResInfo) None, cfg_Webhooks = []\<rparr>) h)
      else if op = K8sResOpCreate \<or> op = K8sResOpUpdate then
        (if k8sVersionMajor = 1 \<and> k8sVersionMinor \<ge> 22 then
           (case buildWebhooks g (mkV1Webhook rc pf g) (WebhooksInfo k8sResInfo) of
              Inl e \<Rightarrow> (Some e, h)
            | Inr webhooks \<Rightarrow>
                if op = K8sResOpCreate then
                  AddResource st RscTypeValidatingWebhookConfiguration
                    (V1Config \<lparr>cfg_Metadata = namedMeta (info_Name k8sResInfo) None,
                               cfg_Webhooks = webhooks\<rparr>) h
                else
                  UpdateResource st RscTypeValidatingWebhookConfiguration
                    (V1Config \<lparr>cfg_Metadata = namedMeta (info_Name k8sResInfo) (Some resVersion),
                               cfg_Webhooks = webhooks\<rparr>) h)
         else
           (case buildWebhooks g (mkV1Beta1Webhook rc pf g) (WebhooksInfo k8sResInfo) of
              Inl e \<Rightarrow> (Some e, h)
            | Inr webhooks \<Rightarrow>
                if op = K8sResOpCreate then
                  AddResource st RscTypeValidatingWebhookConfiguration
                    (V1Beta1Config \<lparr>cfg_Metadata = namedMeta (info_Name k8sResInfo) None,
                                    cfg_Webhooks = webhooks\<rparr>) h
                else
                  UpdateResource st RscTypeValidatingWebhookConfiguration
                    (V1Beta1Config \<lparr>cfg_Metadata = namedMeta (info_Name k8sResInfo) (Some resVersion),
                                    cfg_Webhooks = webhooks\<rparr>) h))
      else (Some ''unsupported k8s resource operation'', h))"

definition UnregK8sAdmissionControl ::
  "orch \<Rightarrow> resource_consts \<Rightarrow> platform \<Rightarrow> registry \<Rightarrow> string \<Rightarrow> string \<Rightarrow> history \<Rightarrow>
   error option \<times> history" where
  "UnregK8sAdmissionControl st rc pf g admType nvAdmName h =
     configK8sAdmCtrlValidateResource st rc pf g K8sResOpDelete []
       \<lparr>info_Name = nvAdmName, WebhooksInfo = []\<rparr> h"

subsection \<open>The top level: ConfigK8sAdmissionControl\<close>

text \<open>
  The first loop resolves the port of every webhook in url mode; it writes through the
  pointers of \<open>WebhooksInfo\<close>, taken here to point to different objects.
\<close>

fun resolvePorts ::
  "orch \<Rightarrow> resource_consts \<Rightarrow> platform \<Rightarrow> registry \<Rightarrow> WebhookInfo list \<Rightarrow> history \<Rightarrow>
   (WebhookInfo list \<times> history) outcome" where
  "resolvePorts st rc pf g [] h = Return ([], h)"
| "resolvePorts st rc pf g (whInfo # rest) h =
     (if ClientMode (ClientConfig whInfo) = AdmClientModeUrl rc then
        (case GetValidateWebhookSvcInfo st rc pf g (ServiceName (ClientConfig whInfo)) h of
           Panic \<Rightarrow> Panic
         | Return ((e, svcInfo), h1) \<Rightarrow>
             (case resolvePorts st rc pf g rest h1 of
                Panic \<Rightarrow> Panic
              | Return (rest', h2) \<Rightarrow>
                  Return (whInfo\<lparr>ClientConfig :=
                            (ClientConfig whInfo)\<lparr>Port := SvcNodePort svcInfo\<rparr>\<rparr> # rest', h2)))
      else
        (case resolvePorts st rc pf g rest h of
           Panic \<Rightarrow> Panic
         | Return (rest', h2) \<Rightarrow> Return (whInfo # rest', h2)))"

text \<open>The choice of \<open>op\<close> in the loop body; the empty string is "no operation".\<close>

definition selectOp :: "bool \<Rightarrow> bool \<Rightarrow> bool \<Rightarrow> string" where
  "selectOp k8sConfigured matchedCfg enable =
     (if k8sConfigured \<and> \<not> enable then K8sResOpDelete
      else if enable then
        (if \<not> k8sConfigured then K8sResOpCreate
         else if \<not> matchedCfg then K8sResOpUpdate
         else [])
      else [])"

text \<open>
  One pass of the body of \<open>for retry < 3\<close>: it either returns from the function
  (\<open>Stop\<close>, with the pair (skip, err)) or reaches \<open>retry++\<close> (\<open>Again\<close>, with the value
  of \<open>err\<close> at that point).
\<close>

datatype step = Stop "bool \<times> error option" | Again "error option"

definition attemptOnce ::
  "orch \<Rightarrow> resource_consts \<Rightarrow> platform \<Rightarrow> registry \<Rightarrow> ValidatingWebhookConfigInfo \<Rightarrow>
   CLUSAdmCtrlState \<Rightarrow> history \<Rightarrow> (step \<times> history) outcome" where
  "attemptOnce st rc pf g k8sResInfo ctrlState h =
     (case isK8sConfiguredAsExpected st rc pf g k8sResInfo h of
        Panic \<Rightarrow> Panic
      | Return ((k8sConfigured, matchedCfg, verRead, err), h1) \<Rightarrow>
          if \<not> k8sConfigured \<and> \<not> matchedCfg \<and> \<not> Enable ctrlState \<and> err \<noteq> None then
            Return (Stop (True, None), h1)
          else if (\<not> k8sConfigured \<and> \<not> Enable ctrlState)
                  \<or> (matchedCfg \<and> k8sConfigured \<and> Enable ctrlState) then
            Return (Stop (True, None), h1)
          else
            (let op = selectOp k8sConfigured matchedCfg (Enable ctrlState)
             in if op \<noteq> [] then
                  (case configK8sAdmCtrlValidateResource st rc pf g op verRead k8sResInfo h1 of
                     (None, h2) \<Rightarrow> Return (Stop (False, None), h2)
                   | (Some e, h2) \<Rightarrow> Return (Again (Some e), h2))
                else Return (Again err, h1)))"

function retryLoop ::
  "orch \<Rightarrow> resource_consts \<Rightarrow> platform \<Rightarrow> registry \<Rightarrow> ValidatingWebhookConfigInfo \<Rightarrow>
   CLUSAdmCtrlState \<Rightarrow> nat \<Rightarrow> error option \<Rightarrow> history \<Rightarrow>
   ((bool \<times> error option) \<times> history) outcome" where
  "retryLoop st rc pf g k8sResInfo ctrlState retry err h =
     (if retry < 3 then
        (case attemptOnce st rc pf g k8sResInfo ctrlState h of
           Panic \<Rightarrow> Panic
         | Return (Stop r, h1) \<Rightarrow> Return (r, h1)
         | Return (Again err1, h1) \<Rightarrow>
             retryLoop st rc pf g k8sResInfo ctrlState (retry + 1) err1 h1)
      else Return ((True, err), h))"
  by pat_completeness auto
termination
  by (relation "measure (\<lambda>(st, rc, pf, g, k8sResInfo, ctrlState, retry, err, h). 3 - retry)") auto

definition ConfigK8sAdmissionControl ::
  "orch \<Rightarrow> resource_consts \<Rightarrow> platform \<Rightarrow> registry \<Rightarrow> ValidatingWebhookConfigInfo \<Rightarrow>
   CLUSAdmCtrlState option \<Rightarrow> history \<Rightarrow> ((bool \<times> error option) \<times> history) outcome" where
  "ConfigK8sAdmissionControl st rc pf g k8sResInfo ctrlState h =
     (case ctrlState of
        None \<Rightarrow> Return ((True, None), h)
      | Some cs \<Rightarrow>
          if Uri cs = [] then Return ((True, None), h)
          else
            (case resolvePorts st rc pf g (WebhooksInfo k8sResInfo) h of
               Panic \<Rightarrow> Panic
             | Return (infos, h0) \<Rightarrow>
                 retryLoop st rc pf g (k8sResInfo\<lparr>WebhooksInfo := infos\<rparr>) cs 0 None h0))"

subsection \<open>The connectivity probe: TestAdmWebhookConnection\<close>

definition TestSucceeded :: int where
  "TestSucceeded = 0"

definition TestFailedAtRead :: int where
  "TestFailedAtRead = 1"

definition TestFailedAtWrite :: int where
  "TestFailedAtWrite = 2"

definition TestFailed :: int where
  "TestFailed = 3"

definition TestAborted :: int where
  "TestAborted = 4"

text \<open>
  Each pass of the poll loop blocks in a \<open>select\<close> until the ticker fires or a signal
  arrives; which of the two the i-th \<open>select\<close> takes is given from outside.
\<close>

datatype select_case = Ticker | Signal

function pollLoop ::
  "orch \<Rightarrow> resource_consts \<Rightarrow> platform \<Rightarrow> registry \<Rightarrow> (nat \<Rightarrow> select_case) \<Rightarrow> string \<Rightarrow>
   string \<Rightarrow> nat \<Rightarrow> history \<Rightarrow> ((int \<times> error option) \<times> history) outcome" where
  "pollLoop st rc pf g sel svcname tag i h =
     (if i < 10 then
        (case sel i of
           Ticker \<Rightarrow>
             (case GetValidateWebhookSvcInfo st rc pf g svcname h of
                Panic \<Rightarrow> Panic
              | Return ((err, svcInfo), h1) \<Rightarrow>
                  if err = None \<and> LabelTag svcInfo = tag \<and> LabelEcho svcInfo = tag
                  then Return ((TestSucceeded, None), h1)
                  else pollLoop st rc pf g sel svcname tag (i + 1) h1)
         | Signal \<Rightarrow> Return ((TestAborted, None), h))
      else Return ((TestFailed, None), h))"
  by pat_completeness auto
termination
  by (relation "measure (\<lambda>(st, rc, pf, g, sel, svcname, tag, i, h). 10 - i)") auto

declare pollLoop.simps [simp del]

text \<open>\<open>now\<close> is the value of \<open>time.Now().Unix()\<close>.\<close>

definition TestAdmWebhookConnection ::
  "orch \<Rightarrow> resource_consts \<Rightarrow> platform \<Rightarrow> registry \<Rightarrow> int \<Rightarrow> (nat \<Rightarrow> select_case) \<Rightarrow>
   string \<Rightarrow> history \<Rightarrow> ((int \<times> error option) \<times> history) outcome" where
  "TestAdmWebhookConnection st rc pf g now sel svcname h =
     (case GetResource st RscTypeService (NvAdmSvcNamespace rc) svcname h of
        (Inl err, h1) \<Rightarrow> Return ((TestFailedAtRead, Some err), h1)
      | (Inr obj, h1) \<Rightarrow>
          (case svcLabelKeys g svcname of
             None \<Rightarrow> Return ((TestFailedAtRead, Some ''svc labels unknown''), h1)
           | Some keys \<Rightarrow>
               (case obj of
                  ServiceObj svcOpt \<Rightarrow>
                    (case svcOpt of
                       None \<Rightarrow> Return ((TestFailed, None), h1)
                     | Some svc \<Rightarrow>
                         (case svc_Metadata svc of
                            None \<Rightarrow> Return ((TestFailed, None), h1)
                          | Some md \<Rightarrow>
                              if ResourceVersion md \<noteq> None then
                                (let labels0 = (case Labels md of None \<Rightarrow> Map.empty | Some l \<Rightarrow> l);
                                     tag = sprintf_d now;
                                     labels1 = labels0(TagKey keys \<mapsto> tag);
                                     labels2 = (if labels1 (EchoKey keys) \<noteq> None
                                                then labels1(EchoKey keys := None) else labels1)
                                 in case UpdateResource st RscTypeService
                                           (ServiceObj (Some (svc\<lparr>svc_Metadata :=
                                              Some (md\<lparr>Labels := Some labels2\<rparr>)\<rparr>))) h1 of
                                      (Some err, h2) \<Rightarrow> Return ((TestFailedAtWrite, Some err), h2)
                                    | (None, h2) \<Rightarrow> pollLoop st rc pf g sel svcname tag 0 h2)
                              else Return ((TestFailed, None), h1)))
                | _ \<Rightarrow> Panic)))"

subsection \<open>Vocabulary of the statements\<close>

text \<open>
  A store is well formed for the probe service if every service object it hands out has
  metadata, as every object of a cluster has.
\<close>

definition servicesHaveMetadata :: "orch \<Rightarrow> bool" where
  "servicesHaveMetadata st =
     (\<forall>h ns name svc. getReply st h RscTypeService ns name = Inr (ServiceObj (Some svc))
        \<longrightarrow> svc_Metadata svc \<noteq> None)"

definition isUrlMode :: "resource_consts \<Rightarrow> WebhookInfo \<Rightarrow> bool" where
  "isUrlMode rc whInfo = (ClientMode (ClientConfig whInfo) = AdmClientModeUrl rc)"

text \<open>The two configuration names the read phase knows; for any other name it reads nothing.\<close>

definition nameSupported :: "resource_consts \<Rightarrow> ValidatingWebhookConfigInfo \<Rightarrow> bool" where
  "nameSupported rc k8sResInfo =
     (info_Name k8sResInfo = NvAdmValidatingName rc \<or> info_Name k8sResInfo = NvCrdValidatingName rc)"

fun writeSucceeded :: "event \<Rightarrow> bool" where
  "writeSucceeded (GetEv rt ns name r) = False"
| "writeSucceeded (AddEv rt obj r) = (r = None)"
| "writeSucceeded (UpdateEv rt obj r) = (r = None)"
| "writeSucceeded (DeleteEv rt obj r) = (r = None)"

text \<open>History \<open>h1\<close> is \<open>h\<close> followed by one write whose reply is \<open>e\<close>.\<close>

definition wrote :: "history \<Rightarrow> error option \<Rightarrow> history \<Rightarrow> bool" where
  "wrote h e h1 = (\<exists>ev. h1 = h @ [ev] \<and> isWrite ev \<and> (writeSucceeded ev \<longleftrightarrow> e = None))"




subsection \<open>The convergence loop in the words of the specification\<close>

text \<open>
  The specification's account of the top-level convergence, to be compared with
  \<open>attemptOnce\<close> and \<open>retryLoop\<close>: the truth table over registered, policy-enabled and
  matched; one attempt, which reads, selects by the table and applies; and the bounded
  repetition, which stops at the first attempt that does not fail and otherwise reports
  the last error.
\<close>

datatype specOp = OpCreate | OpUpdate | OpDelete

fun opName :: "specOp \<Rightarrow> string" where
  "opName OpCreate = K8sResOpCreate"
| "opName OpUpdate = K8sResOpUpdate"
| "opName OpDelete = K8sResOpDelete"

definition specTruthTable :: "bool \<Rightarrow> bool \<Rightarrow> bool \<Rightarrow> specOp option" where
  "specTruthTable registered enabled matched =
     (if registered \<and> \<not> enabled then Some OpDelete
      else if enabled \<and> \<not> registered then Some OpCreate
      else if enabled \<and> registered \<and> \<not> matched then Some OpUpdate
      else None)"

definition specAttempt ::
  "orch \<Rightarrow> resource_consts \<Rightarrow> platform \<Rightarrow> registry \<Rightarrow> ValidatingWebhookConfigInfo \<Rightarrow>
   CLUSAdmCtrlState \<Rightarrow> history \<Rightarrow> (step \<times> history) outcome" where
  "specAttempt st rc pf g spec cs h =
     (case isK8sConfiguredAsExpected st rc pf g spec h of
        Panic \<Rightarrow> Panic
      | Return ((registered, matched, versionToken, e), h1) \<Rightarrow>
          (case specTruthTable registered (Enable cs) matched of
             None \<Rightarrow> Return (Stop (True, None), h1)
           | Some op \<Rightarrow>
               (case configK8sAdmCtrlValidateResource st rc pf g (opName op) versionToken spec h1 of
                  (None, h2) \<Rightarrow> Return (Stop (False, None), h2)
                | (Some e2, h2) \<Rightarrow> Return (Again (Some e2), h2))))"

fun specReconcile ::
  "orch \<Rightarrow> resource_consts \<Rightarrow> platform \<Rightarrow> registry \<Rightarrow> ValidatingWebhookConfigInfo \<Rightarrow>
   CLUSAdmCtrlState \<Rightarrow> nat \<Rightarrow> error option \<Rightarrow> history \<Rightarrow>
   ((bool \<times> error option) \<times> history) outcome" where
  "specReconcile st rc pf g spec cs 0 lastErr h = Return ((True, lastErr), h)"
| "specReconcile st rc pf g spec cs (Suc n) lastErr h =
     (case specAttempt st rc pf g spec cs h of
        Panic \<Rightarrow> Panic
      | Return (Stop r, h1) \<Rightarrow> Return (r, h1)
      | Return (Again e, h1) \<Rightarrow> specReconcile st rc pf g spec cs n e h1)"

subsection \<open>A store that keeps what is written\<close>

text \<open>
  Modelled from the spec: the resource store for namespaces when nothing else changes
  them and every write succeeds. A read returns the object last written under the name
  (the name in the object's metadata), or the initial content; a name that was never
  stored is not found.
\<close>

fun objName :: "kobj \<Rightarrow> string option" where
  "objName (NamespaceObj (Some ns)) =
     (case ns_Metadata ns of None \<Rightarrow> None | Some md \<Rightarrow> meta_Name md)"
| "objName obj = None"

fun applyEvent :: "(string \<rightharpoonup> kobj) \<Rightarrow> event \<Rightarrow> (string \<rightharpoonup> kobj)" where
  "applyEvent m (UpdateEv RscTypeNamespace obj None) =
     (case objName obj of None \<Rightarrow> m | Some n \<Rightarrow> m(n \<mapsto> obj))"
| "applyEvent m ev = m"

definition nsTable :: "(string \<rightharpoonup> kobj) \<Rightarrow> history \<Rightarrow> (string \<rightharpoonup> kobj)" where
  "nsTable init h = foldl applyEvent init h"

definition nsStore :: "(string \<rightharpoonup> kobj) \<Rightarrow> orch" where
  "nsStore init =
     \<lparr>getReply = (\<lambda>h rt ns name.
         if rt = RscTypeNamespace then
           (case nsTable init h name of None \<Rightarrow> Inl ''not found'' | Some obj \<Rightarrow> Inr obj)
         else Inl ''not found''),
      addReply = (\<lambda>h rt obj. None),
      updateReply = (\<lambda>h rt obj. None),
      deleteReply = (\<lambda>h rt obj. None)\<rparr>"

text \<open>The labels of an object, a nil map read as the empty one.\<close>

definition labelsOf :: "ObjectMeta \<Rightarrow> (string \<rightharpoonup> string)" where
  "labelsOf md = (case Labels md of None \<Rightarrow> Map.empty | Some l \<Rightarrow> l)"

subsection \<open>Vocabulary of the probe statements\<close>

text \<open>
  Every poll appends one read to the history, so the poll number \<open>j\<close> (counted from 0)
  of a loop started at history \<open>h\<close> runs at a history that extends \<open>h\<close> by \<open>j\<close> reads.
  A poll succeeds when the test of the source holds: no error, and the tag label and
  the echo label both equal the written tag. It fails when it returns and the test does
  not hold. The echo differs when it returns and the echo label is not the tag.
\<close>

definition atPoll :: "history \<Rightarrow> nat \<Rightarrow> history \<Rightarrow> bool" where
  "atPoll h j h' = (length h' = length h + j \<and> take (length h) h' = h
      \<and> list_all (\<lambda>e. \<not> isWrite e) (drop (length h) h'))"

definition pollSucceeds ::
  "orch \<Rightarrow> resource_consts \<Rightarrow> platform \<Rightarrow> registry \<Rightarrow> string \<Rightarrow> string \<Rightarrow> history \<Rightarrow> bool" where
  "pollSucceeds st rc pf g svcname tag h =
     (\<exists>info h1. GetValidateWebhookSvcInfo st rc pf g svcname h = Return ((None, info), h1)
        \<and> LabelTag info = tag \<and> LabelEcho info = tag)"

definition pollFails ::
  "orch \<Rightarrow> resource_consts \<Rightarrow> platform \<Rightarrow> registry \<Rightarrow> string \<Rightarrow> string \<Rightarrow> history \<Rightarrow> bool" where
  "pollFails st rc pf g svcname tag h =
     (\<exists>e info h1. GetValidateWebhookSvcInfo st rc pf g svcname h = Return ((e, info), h1)
        \<and> \<not> (e = None \<and> LabelTag info = tag \<and> LabelEcho info = tag))"

definition echoDiffers ::
  "orch \<Rightarrow> resource_consts \<Rightarrow> platform \<Rightarrow> registry \<Rightarrow> string \<Rightarrow> string \<Rightarrow> history \<Rightarrow> bool" where
  "echoDiffers st rc pf g svcname tag h =
     (\<exists>e info h1. GetValidateWebhookSvcInfo st rc pf g svcname h = Return ((e, info), h1)
        \<and> LabelEcho info \<noteq> tag)"

text \<open>What a call returned, and how many store calls the history holds after it.\<close>

fun returned :: "('a \<times> history) outcome \<Rightarrow> 'a option" where
  "returned Panic = None"
| "returned (Return (r, h)) = Some r"

fun callsMade :: "('a \<times> history) outcome \<Rightarrow> nat" where
  "callsMade Panic = 0"
| "callsMade (Return (r, h)) = length h"

text \<open>
  How a run of the poll loop that started at pass \<open>i\<close> and history \<open>h\<close> can end, given
  its result code \<open>r\<close> and the reads \<open>new\<close> it added: within the budget of 10 passes,
  and either with success on the last poll, or aborted by the signal in the next pass,
  or failed with the budget used up.
\<close>

definition endsAsOneOfThree ::
  "orch \<Rightarrow> resource_consts \<Rightarrow> platform \<Rightarrow> registry \<Rightarrow> (nat \<Rightarrow> select_case) \<Rightarrow> string \<Rightarrow>
   string \<Rightarrow> nat \<Rightarrow> history \<Rightarrow> int \<Rightarrow> history \<Rightarrow> bool" where
  "endsAsOneOfThree st rc pf g sel svcname tag i h r new =
     (i + length new \<le> 10
      \<and> ((r = TestSucceeded \<and> new \<noteq> [] \<and> pollSucceeds st rc pf g svcname tag (h @ butlast new))
         \<or> (r = TestAborted \<and> i + length new < 10 \<and> sel (i + length new) = Signal)
         \<or> (r = TestFailed \<and> i + length new = 10)))"

subsection \<open>Concrete surroundings for running the model\<close>

text \<open>
  Sample values for the parameters, used where a statement is evaluated on a concrete
  input. Nothing general is proved from them.
\<close>

definition rc0 :: resource_consts where
  "rc0 =
     \<lparr>NvAdmValidatingName = ''neuvector-validating-admission-webhook'',
      NvCrdValidatingName = ''neuvector-validating-crd-webhook'',
      NvAdmValidatingWebhookName = ''neuvector-validating-admission-webhook.neuvector.svc'',
      NvCrdValidatingWebhookName = ''neuvector-validating-crd-webhook.neuvector.svc'',
      NvStatusValidatingWebhookName = ''neuvector-validating-status-webhook.neuvector.svc'',
      NvAdmSvcNamespace = ''neuvector'',
      NsSelectorKeySkipNV = ''NvSkip'',
      NsSelectorKeyStatusNV = ''NvStatus'',
      NsSelectorKeyCtrlPlane = ''control-plane'',
      NsSelectorOpNotExist = ''DoesNotExist'',
      NsSelectorOpExists = ''Exists'',
      CtrlPlaneOpInWhExpr = ''DoesNotExist'',
      K8sApiVersionV1 = ''v1'',
      K8sApiVersionV1Beta1 = ''v1beta1'',
      K8sApiVersionV1Beta2 = ''v1beta2'',
      Ignore = ''Ignore'',
      ServiceTypeClusterIP = ''ClusterIP'',
      ServiceTypeNodePort = ''NodePort'',
      AdmClientModeUrl = ''url''\<rparr>"

text \<open>A platform of a given server version whose selector predicate accepts every webhook,
  whose wildcard match knows a trailing star only and whose case folding is the ASCII one.\<close>

definition pfAt :: "int \<times> int \<Rightarrow> platform" where
  "pfAt ver =
     \<lparr>GetK8sVersion = ver,
      IsK8sNvWebhookConfigured = (\<lambda>name failurePolicy wh nsSelectorSupported. True),
      EqualMatch = (\<lambda>pat str. pat = str \<or>
          (pat \<noteq> [] \<and> last pat = CHR ''*'' \<and> take (length pat - 1) str = butlast pat)),
      EqualFold = asciiEqualFold,
      AdmResForOpsSettings = [],
      CrdResForOpsSettings = [],
      StatusResForOpsSettings = [],
      RESTErrWebhookSvcForAdmCtrl = 30,
      RESTErrNvPermission = 43\<rparr>"

text \<open>A store that answers every read with the same reply and accepts every write.\<close>

definition constStore :: "error + kobj \<Rightarrow> orch" where
  "constStore r =
     \<lparr>getReply = (\<lambda>h rt ns name. r),
      addReply = (\<lambda>h rt obj. None),
      updateReply = (\<lambda>h rt obj. None),
      deleteReply = (\<lambda>h rt obj. None)\<rparr>"

text \<open>A store whose replies are scripted by the number of calls made so far.\<close>

definition scriptStore :: "(nat \<Rightarrow> error + kobj) \<Rightarrow> (nat \<Rightarrow> error option) \<Rightarrow> orch" where
  "scriptStore rd wr =
     \<lparr>getReply = (\<lambda>h rt ns name. rd (length h)),
      addReply = (\<lambda>h rt obj. wr (length h)),
      updateReply = (\<lambda>h rt obj. wr (length h)),
      deleteReply = (\<lambda>h rt obj. wr (length h))\<rparr>"

definition emptyRegistry :: registry where
  "emptyRegistry = \<lparr>admCaBundle = Map.empty, svcLabelKeys = Map.empty\<rparr>"

text \<open>
  A declaration of the CRD rule in service mode, and a configuration of the store that
  agrees with it in everything but, possibly, the side-effect annotation \<open>se\<close>.
\<close>

definition crdInfo :: ValidatingWebhookConfigInfo where
  "crdInfo =
     \<lparr>info_Name = NvCrdValidatingName rc0,
      WebhooksInfo =
        [\<lparr>Name = NvCrdValidatingWebhookName rc0,
          ClientConfig = \<lparr>ClientMode = ''service'', ServiceName = ''neuvector-svc-crd-webhook'',
                          Path = ''/v1/validate/crd'', Port = 443\<rparr>,
          FailurePolicy = ''Ignore'',
          TimeoutSeconds = 30\<rparr>]\<rparr>"


text \<open>
  A store without the configuration in which every write is refused, the third write
  with a message of its own; a registry that holds a bundle for the CRD service; an
  enabled and a disabled control state.
\<close>

definition conflictStore :: orch where
  "conflictStore = scriptStore (\<lambda>n. Inl ''not found'')
       (\<lambda>n. Some (if n = 5 then ''conflict on the third write'' else ''conflict''))"

definition crdRegistry :: registry where
  "crdRegistry = SetCABundle ''neuvector-svc-crd-webhook'' ''cert'' emptyRegistry"

definition enabledState :: CLUSAdmCtrlState where
  "enabledState = \<lparr>Enable = True, Uri = ''/v1/validate''\<rparr>"

definition disabledState :: CLUSAdmCtrlState where
  "disabledState = \<lparr>Enable = False, Uri = ''/v1/validate''\<rparr>"

text \<open>A namespace without labels, and a policy that allows the namespaces \<open>dev-*\<close>.\<close>

definition devNamespace :: Namespace where
  "devNamespace = \<lparr>ns_Metadata = Some \<lparr>meta_Name = Some ''dev-a'', ResourceVersion = Some ''1'', Labels = None\<rparr>\<rparr>"

definition devPolicy :: nsSelectorInfo where
  "devPolicy = \<lparr>defAllowedNamespaces = [], allowedNamespaces = [''kube-system''],
         allowedNamespacesWild = [''dev-*''], nsSelectorValue = ''true''\<rparr>"

text \<open>
  A registry with label keys for the service \<open>svc\<close>; a service object with given tag and
  echo labels; a store that shows the echo from its third read on, one that never shows
  it, and one whose echo label is "123" under a tag label "999".
\<close>

definition probeRegistry :: registry where
  "probeRegistry = SetCABundle ''svc'' ''cert'' emptyRegistry"

definition probeSvc :: "string option \<Rightarrow> string option \<Rightarrow> Service" where
  "probeSvc tagLabel echoLabel =
     \<lparr>svc_Metadata = Some \<lparr>meta_Name = Some ''svc'', ResourceVersion = Some ''1'',
         Labels = Some (\<lambda>k. if k = ''tag-svc'' then tagLabel
                             else if k = ''echo-svc'' then echoLabel else None)\<rparr>,
      svc_Spec = None\<rparr>"

definition echoAtThirdRead :: orch where
  "echoAtThirdRead =
     scriptStore (\<lambda>n. Inr (ServiceObj (Some (probeSvc (Some ''123'')
                     (if n < 2 then None else Some ''123''))))) (\<lambda>n. None)"

definition neverEcho :: orch where
  "neverEcho = constStore (Inr (ServiceObj (Some (probeSvc (Some ''123'') None))))"

definition foreignTag :: orch where
  "foreignTag = constStore (Inr (ServiceObj (Some (probeSvc (Some ''999'') (Some ''123'')))))"

section \<open>Theorems\<close>

subsection \<open>C8: ResetCABundle\<close>

text \<open>
  C8, as stated, says that \<open>ResetCABundle\<close> stores the new bundle if and only if it
  differs from the stored one. The source guards the store with \<open>len(newCert) > 0\<close>:
  an empty new bundle is never stored, although it differs from a non-empty stored one.
\<close>

theorem ResetCABundle_empty_counterexample:
  "''''  \<noteq> caBundleOf \<lparr>admCaBundle = [''svc'' \<mapsto> ''old''], svcLabelKeys = Map.empty\<rparr> ''svc''
   \<and> ResetCABundle ''svc'' '''' \<lparr>admCaBundle = [''svc'' \<mapsto> ''old''], svcLabelKeys = Map.empty\<rparr>
       = (False, \<lparr>admCaBundle = [''svc'' \<mapsto> ''old''], svcLabelKeys = Map.empty\<rparr>)"
  by (simp add: ResetCABundle_def caBundleOf_def)

text \<open>
  C8 (amended): for every service name and bundle, \<open>ResetCABundle\<close> stores the new
  bundle if and only if it is non-empty and differs from the currently stored value
  (a missing entry reads as the empty bundle); it returns true exactly when it stored,
  after which the registry reads back the new bundle; otherwise the registry is
  unchanged; and it never touches the tag/echo label-key pairs.
\<close>

theorem ResetCABundle_changed_iff:
  "fst (ResetCABundle svcName caBundle g)
      = (caBundle \<noteq> [] \<and> caBundle \<noteq> caBundleOf g svcName)
   \<and> (fst (ResetCABundle svcName caBundle g) \<longrightarrow>
        caBundleOf (snd (ResetCABundle svcName caBundle g)) svcName = caBundle
        \<and> caBundleOf (snd (ResetCABundle svcName caBundle g)) svcName \<noteq> caBundleOf g svcName)
   \<and> (\<not> fst (ResetCABundle svcName caBundle g) \<longrightarrow> snd (ResetCABundle svcName caBundle g) = g)
   \<and> svcLabelKeys (snd (ResetCABundle svcName caBundle g)) = svcLabelKeys g"
  by (auto simp: ResetCABundle_def caBundleOf_def Let_def)

theorem ResetCABundle_changed_iff_witness:
  "fst (ResetCABundle ''svc'' ''new'' \<lparr>admCaBundle = [''svc'' \<mapsto> ''old''], svcLabelKeys = Map.empty\<rparr>)
   \<and> caBundleOf (snd (ResetCABundle ''svc'' ''new''
        \<lparr>admCaBundle = [''svc'' \<mapsto> ''old''], svcLabelKeys = Map.empty\<rparr>)) ''svc'' = ''new''"
  using ResetCABundle_changed_iff [of "''svc''" "''new''"
      "\<lparr>admCaBundle = [''svc'' \<mapsto> ''old''], svcLabelKeys = Map.empty\<rparr>"]
  by (simp add: caBundleOf_def)

subsection \<open>C1: the side-effect annotation expected by the read phase\<close>










subsection \<open>C2: no write with an empty trust bundle\<close>

lemma buildWebhooks_empty_caBundle:
  "\<exists>whInfo \<in> set infos. caBundleOf g (ServiceName (ClientConfig whInfo)) = [] \<Longrightarrow>
   buildWebhooks g mk infos = Inl ''empty caBundle''"
proof (induction infos)
  case Nil
  then show ?case by simp
next
  case (Cons a infos)
  show ?case
  proof (cases "caBundleOf g (ServiceName (ClientConfig a)) = []")
    case True
    then show ?thesis by simp
  next
    case False
    with Cons.prems
    have "\<exists>whInfo \<in> set infos. caBundleOf g (ServiceName (ClientConfig whInfo)) = []"
      by auto
    from Cons.IH [OF this] False show ?thesis by simp
  qed
qed

text \<open>
  C2: for a create or an update, if the service of some declared rule has an empty trust
  bundle in the registry (a missing entry included), \<open>configK8sAdmCtrlValidateResource\<close>
  returns the error "empty caBundle" and leaves the history of store calls as it was:
  no add, no update, no call at all.
\<close>

theorem configK8sAdmCtrlValidateResource_empty_caBundle:
  assumes "op = K8sResOpCreate \<or> op = K8sResOpUpdate"
    and "\<exists>whInfo \<in> set (WebhooksInfo k8sResInfo).
           caBundleOf g (ServiceName (ClientConfig whInfo)) = []"
  shows "configK8sAdmCtrlValidateResource st rc pf g op resVersion k8sResInfo h
           = (Some ''empty caBundle'', h)"
  using assms(1) buildWebhooks_empty_caBundle [OF assms(2)]
  by (auto simp: configK8sAdmCtrlValidateResource_def K8sResOpCreate_def K8sResOpUpdate_def
        K8sResOpDelete_def split: prod.splits)

theorem configK8sAdmCtrlValidateResource_empty_caBundle_witness:
  "configK8sAdmCtrlValidateResource (constStore (Inl ''not found'')) rc0 (pfAt (1, 22))
       emptyRegistry ''update'' ''7'' crdInfo []
     = (Some ''empty caBundle'', [])"
  using configK8sAdmCtrlValidateResource_empty_caBundle [of "''update''" crdInfo emptyRegistry
      "constStore (Inl ''not found'')" rc0 "pfAt (1, 22)" "''7''" "[]"]
  by (simp add: K8sResOpCreate_def K8sResOpUpdate_def crdInfo_def emptyRegistry_def caBundleOf_def)

subsection \<open>C5: the desired presence of the skip key\<close>

lemma distinct_desiredLabelKeys:
  "NsSelectorKeySkipNV rc \<noteq> NsSelectorKeyStatusNV rc \<Longrightarrow>
   distinct (map fst (desiredLabelKeys rc pf si en ns))"
  by (auto simp: desiredLabelKeys_def Let_def distinct_update)

text \<open>
  C5: provided the skip key is a different constant from the status key and from the
  control-plane key, the map \<open>labelKeys\<close> of \<open>VerifyK8sNs\<close> holds for the skip key
  "should exist" if and only if admission control is enabled and the namespace is in the
  exact-match allowed set or matches some pattern of the wildcard allowed set, and
  "should not exist" in every other case; the key occurs once in the map.
\<close>

theorem desiredLabelKeys_skip_key:
  assumes "NsSelectorKeySkipNV rc \<noteq> NsSelectorKeyStatusNV rc"
    and "NsSelectorKeySkipNV rc \<noteq> NsSelectorKeyCtrlPlane rc"
  shows "map_of (desiredLabelKeys rc pf si admCtrlEnabled nsName) (NsSelectorKeySkipNV rc)
           = Some (Some (admCtrlEnabled \<and>
               (nsName \<in> set (allowedNamespaces si)
                \<or> (\<exists>w \<in> set (allowedNamespacesWild si). EqualMatch pf w nsName))))
         \<and> distinct (map fst (desiredLabelKeys rc pf si admCtrlEnabled nsName))"
  using assms
  by (auto simp: desiredLabelKeys_def Let_def update_conv' list_ex_iff distinct_update)

theorem desiredLabelKeys_skip_key_witness:
  "map_of (desiredLabelKeys rc0 (pfAt (1, 20))
        \<lparr>defAllowedNamespaces = [], allowedNamespaces = [''kube-system''],
         allowedNamespacesWild = [''dev-*''], nsSelectorValue = ''true''\<rparr> True ''dev-a'')
      (NsSelectorKeySkipNV rc0) = Some (Some True)
   \<and> map_of (desiredLabelKeys rc0 (pfAt (1, 20))
        \<lparr>defAllowedNamespaces = [], allowedNamespaces = [''kube-system''],
         allowedNamespacesWild = [''dev-*''], nsSelectorValue = ''true''\<rparr> False ''dev-a'')
      (NsSelectorKeySkipNV rc0) = Some (Some False)"
  using desiredLabelKeys_skip_key [of rc0 "pfAt (1, 20)"
      "\<lparr>defAllowedNamespaces = [], allowedNamespaces = [''kube-system''],
        allowedNamespacesWild = [''dev-*''], nsSelectorValue = ''true''\<rparr>" True "''dev-a''"]
    desiredLabelKeys_skip_key [of rc0 "pfAt (1, 20)"
      "\<lparr>defAllowedNamespaces = [], allowedNamespaces = [''kube-system''],
        allowedNamespacesWild = [''dev-*''], nsSelectorValue = ''true''\<rparr>" False "''dev-a''"]
  by (simp add: rc0_def pfAt_def)

subsection \<open>C9: the status of a failed read of the probe service\<close>

lemma GetValidateWebhookSvcInfo_read_failed:
  "getReply st h RscTypeService (NvAdmSvcNamespace rc) svcname = Inl err \<Longrightarrow>
   \<exists>info. GetValidateWebhookSvcInfo st rc pf g svcname h
       = Return ((Some err, info),
           h @ [GetEv RscTypeService (NvAdmSvcNamespace rc) svcname (Inl err)])
     \<and> Status info =
         (if strings_Index err '' 403 '' > 0 \<and> strings_Index err ''forbidden'' > 0
          then RESTErrNvPermission pf else RESTErrWebhookSvcForAdmCtrl pf)"
  by (simp add: GetValidateWebhookSvcInfo_def GetResource_def Let_def)

text \<open>
  C9 fails on the code: the source tests \<open>strings.Index(...) > 0\<close> for both patterns, so
  a pattern that starts the error text (index 0) does not count. The text below contains
  both " 403 " and "forbidden", and the status returned is the generic webhook-service
  one, for every platform, registry, service name and history.
\<close>

theorem GetValidateWebhookSvcInfo_forbidden_at_index_0:
  "strings_Index ''forbidden: status 403 returned'' '' 403 '' \<ge> 0
   \<and> strings_Index ''forbidden: status 403 returned'' ''forbidden'' \<ge> 0
   \<and> GetValidateWebhookSvcInfo (constStore (Inl ''forbidden: status 403 returned''))
        rc pf g svcname h
     = Return ((Some ''forbidden: status 403 returned'',
          \<lparr>Status = RESTErrWebhookSvcForAdmCtrl pf, SvcNodePort = 443,
           SvcType = ServiceTypeClusterIP rc, LabelTag = [], LabelEcho = []\<rparr>),
        h @ [GetEv RscTypeService (NvAdmSvcNamespace rc) svcname
               (Inl ''forbidden: status 403 returned'')])"
  by (simp add: GetValidateWebhookSvcInfo_def GetResource_def constStore_def strings_Index_def
      Let_def)

subsection \<open>C10: a nil label map\<close>

text \<open>
  C10: \<open>VerifyK8sNs\<close> replaces a nil label map by an empty one before it looks anything
  up, so for every store, policy state, namespace and history the call with the nil map
  and the call with the empty map have the same outcome.
\<close>

theorem VerifyK8sNs_nil_labels:
  "VerifyK8sNs st rc pf si admCtrlEnabled nsName None h
     = VerifyK8sNs st rc pf si admCtrlEnabled nsName (Some Map.empty) h"
  by (simp add: VerifyK8sNs_def)


subsection \<open>Histories of the building blocks\<close>

lemma GetValidateWebhookSvcInfo_history:
  "GetValidateWebhookSvcInfo st rc pf g svcname h = Return (x, h1) \<Longrightarrow>
   \<exists>r. h1 = h @ [GetEv RscTypeService (NvAdmSvcNamespace rc) svcname r]"
  by (auto simp: GetValidateWebhookSvcInfo_def GetResource_def Let_def
      split: sum.splits kobj.splits option.splits)

lemma GetValidateWebhookSvcInfo_returns:
  assumes "servicesHaveMetadata st"
  shows "\<exists>x r. GetValidateWebhookSvcInfo st rc pf g svcname h
           = Return (x, h @ [GetEv RscTypeService (NvAdmSvcNamespace rc) svcname r])"
proof (cases "getReply st h RscTypeService (NvAdmSvcNamespace rc) svcname")
  case (Inl err)
  then show ?thesis
    by (simp add: GetValidateWebhookSvcInfo_def GetResource_def Let_def)
next
  case (Inr obj)
  show ?thesis
  proof (cases "\<exists>svc. obj = ServiceObj (Some svc)")
    case True
    then obtain svc where o: "obj = ServiceObj (Some svc)" by blast
    with Inr assms obtain md where "svc_Metadata svc = Some md"
      unfolding servicesHaveMetadata_def by blast
    with Inr o show ?thesis
      by (simp add: GetValidateWebhookSvcInfo_def GetResource_def Let_def split: option.splits)
  next
    case False
    with Inr show ?thesis
      by (auto simp: GetValidateWebhookSvcInfo_def GetResource_def Let_def
          split: kobj.splits option.splits)
  qed
qed

lemma resolvePorts_history:
  "resolvePorts st rc pf g infos h = Return (infos', h') \<Longrightarrow>
   \<exists>new. h' = h @ new \<and> list_all (\<lambda>e. \<not> isWrite e) new
      \<and> length new = length (filter (isUrlMode rc) infos)"
proof (induction infos arbitrary: h infos' h')
  case Nil
  then show ?case by simp
next
  case (Cons whInfo rest)
  show ?case
  proof (cases "isUrlMode rc whInfo")
    case True
    from Cons.prems True obtain e svcInfo h1 rest' where
      g: "GetValidateWebhookSvcInfo st rc pf g (ServiceName (ClientConfig whInfo)) h = Return ((e, svcInfo), h1)"
      and r: "resolvePorts st rc pf g rest h1 = Return (rest', h')"
      by (auto simp: isUrlMode_def split: outcome.splits prod.splits)
    from GetValidateWebhookSvcInfo_history[OF g] obtain r0 where
      h1: "h1 = h @ [GetEv RscTypeService (NvAdmSvcNamespace rc) (ServiceName (ClientConfig whInfo)) r0]" by blast
    from Cons.IH[OF r] obtain new where "h' = h1 @ new" "list_all (\<lambda>e. \<not> isWrite e) new"
      "length new = length (filter (isUrlMode rc) rest)" by blast
    with h1 True show ?thesis by simp
  next
    case False
    from Cons.prems False obtain rest' where
      r: "resolvePorts st rc pf g rest h = Return (rest', h')"
      by (auto simp: isUrlMode_def split: outcome.splits prod.splits)
    from Cons.IH[OF r] False show ?thesis by simp
  qed
qed

lemma resolvePorts_returns:
  assumes "servicesHaveMetadata st"
  shows "\<exists>infos' h'. resolvePorts st rc pf g infos h = Return (infos', h')"
proof (induction infos arbitrary: h)
  case Nil
  then show ?case by simp
next
  case (Cons whInfo rest)
  show ?case
  proof (cases "isUrlMode rc whInfo")
    case True
    from GetValidateWebhookSvcInfo_returns[OF assms] obtain x r where
      g: "GetValidateWebhookSvcInfo st rc pf g (ServiceName (ClientConfig whInfo)) h
           = Return (x, h @ [GetEv RscTypeService (NvAdmSvcNamespace rc) (ServiceName (ClientConfig whInfo)) r])" by blast
    obtain infos' h' where "resolvePorts st rc pf g rest (h @ [GetEv RscTypeService (NvAdmSvcNamespace rc) (ServiceName (ClientConfig whInfo)) r]) = Return (infos', h')"
      using Cons.IH by blast
    with g True show ?thesis by (cases x) (simp add: isUrlMode_def)
  next
    case False
    obtain infos' h' where "resolvePorts st rc pf g rest h = Return (infos', h')"
      using Cons.IH by blast
    with False show ?thesis by (simp add: isUrlMode_def)
  qed
qed

lemma isK8sConfiguredAsExpected_not_found:
  assumes "\<forall>h'. isl (getReply st h' RscTypeValidatingWebhookConfiguration AllNamespaces (info_Name k8sResInfo))"
  shows "\<exists>e new. isK8sConfiguredAsExpected st rc pf g k8sResInfo h = Return ((False, False, [], Some e), h @ new)
      \<and> list_all (\<lambda>e. \<not> isWrite e) new \<and> length new = (if nameSupported rc k8sResInfo then 1 else 0)"
proof -
  from assms obtain e where "getReply st h RscTypeValidatingWebhookConfiguration AllNamespaces (info_Name k8sResInfo) = Inl e"
    by (metis isl_def)
  then show ?thesis
    by (auto simp: isK8sConfiguredAsExpected_def GetResource_def Let_def nameSupported_def)
qed

lemma retryLoop_not_found:
  assumes "\<forall>h'. isl (getReply st h' RscTypeValidatingWebhookConfiguration AllNamespaces (info_Name k8sResInfo))"
    and "\<not> Enable cs"
  shows "\<exists>new. retryLoop st rc pf g k8sResInfo cs 0 err h = Return ((True, None), h @ new)
      \<and> list_all (\<lambda>e. \<not> isWrite e) new \<and> length new = (if nameSupported rc k8sResInfo then 1 else 0)"
proof -
  from isK8sConfiguredAsExpected_not_found[OF assms(1)] obtain e new where
    "isK8sConfiguredAsExpected st rc pf g k8sResInfo h = Return ((False, False, [], Some e), h @ new)"
    "list_all (\<lambda>e. \<not> isWrite e) new" "length new = (if nameSupported rc k8sResInfo then 1 else 0)" by blast
  with assms(2) show ?thesis
    by (simp add: attemptOnce_def)
qed


subsection \<open>C4: disabling what is not registered\<close>

text \<open>
  C4, as stated, has \<open>ConfigK8sAdmissionControl\<close> make no store call when the policy is
  disabled and nothing is registered. To learn that nothing is registered it reads
  the store: here the history ends with one read of the configuration.
\<close>

theorem ConfigK8sAdmissionControl_disabled_reads_counterexample:
  "ConfigK8sAdmissionControl (constStore (Inl ''not found'')) rc0 (pfAt (1, 22)) emptyRegistry
       crdInfo (Some disabledState) []
     = Return ((True, None),
         [GetEv RscTypeValidatingWebhookConfiguration [] (NvCrdValidatingName rc0)
            (Inl ''not found'')])"
  by (simp add: ConfigK8sAdmissionControl_def disabledState_def crdInfo_def rc0_def
      attemptOnce_def isK8sConfiguredAsExpected_def GetResource_def constStore_def
      AllNamespaces_def Let_def)

text \<open>
  C4 (amended): with a control state whose \<open>Enable\<close> is false, a store in which every
  read of the named configuration fails (it is not registered) and whose service objects
  have metadata, \<open>ConfigK8sAdmissionControl\<close> returns skip = true with no error and
  makes no write call (no add, update or delete). The calls it makes are reads: none if
  the state's \<open>Uri\<close> is empty, otherwise one per rule in url mode and one for the
  configuration if its name is one of the two known ones.
\<close>

theorem ConfigK8sAdmissionControl_disabled_not_registered:
  assumes "ctrlState = Some cs" and "\<not> Enable cs"
    and "\<forall>h'. isl (getReply st h' RscTypeValidatingWebhookConfiguration AllNamespaces (info_Name k8sResInfo))"
    and "servicesHaveMetadata st"
  shows "\<exists>new. ConfigK8sAdmissionControl st rc pf g k8sResInfo ctrlState h = Return ((True, None), h @ new)
      \<and> list_all (\<lambda>e. \<not> isWrite e) new
      \<and> length new = (if Uri cs = [] then 0
           else length (filter (isUrlMode rc) (WebhooksInfo k8sResInfo)) + (if nameSupported rc k8sResInfo then 1 else 0))"
proof (cases "Uri cs = []")
  case True
  with assms(1) show ?thesis by (simp add: ConfigK8sAdmissionControl_def)
next
  case False
  from resolvePorts_returns[OF assms(4)] obtain infos' h0 where
    rp: "resolvePorts st rc pf g (WebhooksInfo k8sResInfo) h = Return (infos', h0)" by blast
  from resolvePorts_history[OF rp] obtain new0 where
    n0: "h0 = h @ new0" "list_all (\<lambda>e. \<not> isWrite e) new0" "length new0 = length (filter (isUrlMode rc) (WebhooksInfo k8sResInfo))" by blast
  have "\<forall>h'. isl (getReply st h' RscTypeValidatingWebhookConfiguration AllNamespaces (info_Name (k8sResInfo\<lparr>WebhooksInfo := infos'\<rparr>)))"
    using assms(3) by simp
  from retryLoop_not_found[OF this assms(2), of rc pf g None h0] obtain new1 where
    n1: "retryLoop st rc pf g (k8sResInfo\<lparr>WebhooksInfo := infos'\<rparr>) cs 0 None h0 = Return ((True, None), h0 @ new1)"
      "list_all (\<lambda>e. \<not> isWrite e) new1" "length new1 = (if nameSupported rc (k8sResInfo\<lparr>WebhooksInfo := infos'\<rparr>) then 1 else 0)" by blast
  have "ConfigK8sAdmissionControl st rc pf g k8sResInfo ctrlState h = Return ((True, None), h @ (new0 @ new1))"
    using assms(1) False rp n1(1) n0(1) by (simp add: ConfigK8sAdmissionControl_def)
  moreover have "list_all (\<lambda>e. \<not> isWrite e) (new0 @ new1)" using n0(2) n1(2) by simp
  moreover have "length (new0 @ new1) = length (filter (isUrlMode rc) (WebhooksInfo k8sResInfo)) + (if nameSupported rc k8sResInfo then 1 else 0)"
    using n0(3) n1(3) by (simp add: nameSupported_def)
  ultimately show ?thesis using False by (intro exI[of _ "new0 @ new1"]) simp
qed


theorem ConfigK8sAdmissionControl_disabled_not_registered_witness:
  "\<exists>new. ConfigK8sAdmissionControl (constStore (Inl ''not found'')) rc0 (pfAt (1, 22))
            emptyRegistry crdInfo (Some disabledState) [] = Return ((True, None), new)
         \<and> list_all (\<lambda>e. \<not> isWrite e) new \<and> length new = 1"
proof -
  have d: "\<not> Enable disabledState" by (simp add: disabledState_def)
  have nf: "\<forall>h'. isl (getReply (constStore (Inl ''not found'')) h'
              RscTypeValidatingWebhookConfiguration AllNamespaces (info_Name crdInfo))"
    by (simp add: constStore_def)
  have m: "servicesHaveMetadata (constStore (Inl ''not found''))"
    by (simp add: servicesHaveMetadata_def constStore_def)
  from ConfigK8sAdmissionControl_disabled_not_registered [OF refl d nf m, of rc0 "pfAt (1, 22)"
      emptyRegistry "[]"]
  show ?thesis
    by (simp add: disabledState_def nameSupported_def isUrlMode_def crdInfo_def rc0_def)
qed

subsection \<open>C3: at most three attempts\<close>

lemma selectOp_specTruthTable:
  "selectOp registered matched enabled =
     (case specTruthTable registered enabled matched of None \<Rightarrow> [] | Some op \<Rightarrow> opName op)"
  by (simp add: selectOp_def specTruthTable_def)

lemma opName_nonempty: "opName op \<noteq> []"
  by (cases op) (simp_all add: K8sResOpCreate_def K8sResOpUpdate_def K8sResOpDelete_def)

lemma specTruthTable_None:
  "specTruthTable registered enabled matched = None
     \<longleftrightarrow> (\<not> registered \<and> \<not> enabled) \<or> (matched \<and> registered \<and> enabled)"
  by (auto simp: specTruthTable_def)

lemma attemptOnce_eq: "attemptOnce st rc pf g info cs h = specAttempt st rc pf g info cs h"
proof (cases "isK8sConfiguredAsExpected st rc pf g info h")
  case Panic
  then show ?thesis by (simp add: attemptOnce_def specAttempt_def)
next
  case (Return x)
  obtain registered matched ver e h1 where x: "x = ((registered, matched, ver, e), h1)"
    by (cases x) auto
  show ?thesis
  proof (cases "specTruthTable registered (Enable cs) matched")
    case None
    then have "(\<not> registered \<and> \<not> Enable cs) \<or> (matched \<and> registered \<and> Enable cs)"
      by (simp add: specTruthTable_None)
    with Return x None show ?thesis
      by (auto simp add: attemptOnce_def specAttempt_def)
  next
    case (Some op)
    then have n: "\<not> ((\<not> registered \<and> \<not> Enable cs) \<or> (matched \<and> registered \<and> Enable cs))"
      using specTruthTable_None[of registered "Enable cs" matched] by simp
    have s: "selectOp registered matched (Enable cs) = opName op"
      using Some by (simp add: selectOp_specTruthTable)
    from n have n1: "\<not> (\<not> registered \<and> \<not> matched \<and> \<not> Enable cs \<and> e \<noteq> None)" by blast
    show ?thesis
      unfolding attemptOnce_def specAttempt_def
      using n n1
      by (simp add: Return x Some s opName_nonempty del: not_None_eq split: prod.splits option.splits)
  qed
qed

lemma retryLoop_eq:
  "retry \<le> 3 \<Longrightarrow> retryLoop st rc pf g info cs retry err h = specReconcile st rc pf g info cs (3 - retry) err h"
proof (induction "3 - retry" arbitrary: retry err h)
  case 0
  then have "\<not> retry < 3" by simp
  with 0 show ?case by simp
next
  case (Suc n)
  then have lt: "retry < 3" and s: "3 - retry = Suc n" and n: "n = 3 - (retry + 1)" by auto
  have le: "retry + 1 \<le> 3" using lt by simp
  have step: "retryLoop st rc pf g info cs retry err h =
     (case specAttempt st rc pf g info cs h of
           Panic \<Rightarrow> Panic
         | Return (Stop r, h1) \<Rightarrow> Return (r, h1)
         | Return (Again err1, h1) \<Rightarrow> retryLoop st rc pf g info cs (retry + 1) err1 h1)"
    using lt by (subst retryLoop.simps) (simp add: attemptOnce_eq)
  have ih: "\<And>err1 h1. retryLoop st rc pf g info cs (retry + 1) err1 h1
      = specReconcile st rc pf g info cs n err1 h1"
    using Suc.hyps(1)[OF n le] n by simp
  show ?case
    unfolding step s specReconcile.simps ih ..
qed

lemma isK8sConfiguredAsExpected_history:
  "isK8sConfiguredAsExpected st rc pf g info h = Return (r, h1) \<Longrightarrow>
   \<exists>new. h1 = h @ new \<and> length new \<le> 1 \<and> list_all (\<lambda>e. \<not> isWrite e) new"
  unfolding isK8sConfiguredAsExpected_def GetResource_def Let_def
  by (auto split: if_splits sum.splits kobj.splits outcome.splits)

lemma AddResource_wrote: "AddResource st rt obj h = (e, h1) \<Longrightarrow> wrote h e h1"
  by (auto simp: AddResource_def wrote_def Let_def)

lemma UpdateResource_wrote: "UpdateResource st rt obj h = (e, h1) \<Longrightarrow> wrote h e h1"
  by (auto simp: UpdateResource_def wrote_def Let_def)

lemma DeleteResource_wrote: "DeleteResource st rt obj h = (e, h1) \<Longrightarrow> wrote h e h1"
  by (auto simp: DeleteResource_def wrote_def Let_def)

lemma configK8sAdmCtrlValidateResource_history:
  assumes "configK8sAdmCtrlValidateResource st rc pf g op ver info h = (e, h1)"
  shows "(h1 = h \<and> e \<noteq> None) \<or> wrote h e h1"
  using assms
  unfolding configK8sAdmCtrlValidateResource_def
  by (auto split: prod.splits if_splits sum.splits
      dest: AddResource_wrote UpdateResource_wrote DeleteResource_wrote)

lemma specAttempt_history:
  assumes "specAttempt st rc pf g info cs h = Return (x, h1)"
  shows "\<exists>new. h1 = h @ new
           \<and> length (filter isWrite new) \<le> 1
           \<and> length (filter (\<lambda>e. \<not> isWrite e) new) \<le> 1
           \<and> (x = Stop (False, None) \<longrightarrow> new \<noteq> [] \<and> writeSucceeded (last new))
           \<and> (\<forall>e. x = Again e \<longrightarrow> e \<noteq> None)
           \<and> (\<forall>sk er. x = Stop (sk, er) \<longrightarrow> er = None)"
proof (cases "isK8sConfiguredAsExpected st rc pf g info h")
  case Panic
  with assms show ?thesis by (simp add: specAttempt_def)
next
  case (Return y)
  obtain registered matched ver e h0 where y: "y = ((registered, matched, ver, e), h0)"
    by (cases y) auto
  from isK8sConfiguredAsExpected_history[OF Return[unfolded y]] obtain new0 where
    n0: "h0 = h @ new0" "length new0 \<le> 1" "list_all (\<lambda>e. \<not> isWrite e) new0" by blast
  have f0: "filter isWrite new0 = []" using n0(3) by (simp add: list_all_iff)
  have f1: "length (filter (\<lambda>e. \<not> isWrite e) new0) \<le> 1"
    using n0(2) by (meson le_trans length_filter_le)
  show ?thesis
  proof (cases "specTruthTable registered (Enable cs) matched")
    case None
    with assms Return y have "x = Stop (True, None)" "h1 = h0"
      by (auto simp: specAttempt_def)
    with n0 f0 f1 show ?thesis by auto
  next
    case (Some op)
    obtain e2 h2 where c: "configK8sAdmCtrlValidateResource st rc pf g (opName op) ver info h0 = (e2, h2)"
      by (cases "configK8sAdmCtrlValidateResource st rc pf g (opName op) ver info h0") auto
    from assms Return y Some c have x: "x = (case e2 of None \<Rightarrow> Stop (False, None) | Some e \<Rightarrow> Again (Some e))" "h1 = h2"
      by (auto simp: specAttempt_def split: option.splits)
    from configK8sAdmCtrlValidateResource_history[OF c] show ?thesis
    proof
      assume "h2 = h0 \<and> e2 \<noteq> None"
      with x n0 f0 f1 show ?thesis by auto
    next
      assume "wrote h0 e2 h2"
      then obtain ev where ev: "h2 = h0 @ [ev]" "isWrite ev" "writeSucceeded ev \<longleftrightarrow> e2 = None"
        by (auto simp: wrote_def)
      have "h1 = h @ (new0 @ [ev])" using x(2) ev(1) n0(1) by simp
      moreover have "length (filter isWrite (new0 @ [ev])) \<le> 1" using f0 ev(2) by simp
      moreover have "length (filter (\<lambda>e. \<not> isWrite e) (new0 @ [ev])) \<le> 1" using f1 ev(2) by simp
      moreover have "x = Stop (False, None) \<longrightarrow> new0 @ [ev] \<noteq> [] \<and> writeSucceeded (last (new0 @ [ev]))"
        using x(1) ev(3) by (auto split: option.splits)
      moreover have "\<forall>e. x = Again e \<longrightarrow> e \<noteq> None" using x(1) by (auto split: option.splits)
      moreover have "\<forall>sk er. x = Stop (sk, er) \<longrightarrow> er = None" using x(1) by (auto split: option.splits)
      ultimately show ?thesis by blast
    qed
  qed
qed

lemma specReconcile_history:
  "specReconcile st rc pf g info cs n err h = Return ((skip, er), h') \<Longrightarrow>
   \<exists>new. h' = h @ new
      \<and> length (filter isWrite new) \<le> n
      \<and> length (filter (\<lambda>e. \<not> isWrite e) new) \<le> n
      \<and> (\<not> skip \<longrightarrow> er = None \<and> new \<noteq> [] \<and> writeSucceeded (last new))"
proof (induction n arbitrary: err h)
  case 0
  then show ?case by simp
next
  case (Suc n)
  from Suc.prems obtain x h1 where a: "specAttempt st rc pf g info cs h = Return (x, h1)"
    by (cases "specAttempt st rc pf g info cs h") auto
  from specAttempt_history[OF a] obtain new1 where
    n1: "h1 = h @ new1" "length (filter isWrite new1) \<le> 1"
      "length (filter (\<lambda>e. \<not> isWrite e) new1) \<le> 1"
      "x = Stop (False, None) \<longrightarrow> new1 \<noteq> [] \<and> writeSucceeded (last new1)"
      "\<forall>sk er. x = Stop (sk, er) \<longrightarrow> er = None" by blast
  show ?case
  proof (cases x)
    case (Stop r)
    with Suc.prems a have r: "r = (skip, er)" "h' = h1" by auto
    with Stop n1 show ?thesis by auto
  next
    case (Again e)
    with Suc.prems a have "specReconcile st rc pf g info cs n e h1 = Return ((skip, er), h')" by simp
    from Suc.IH[OF this] obtain new2 where
      n2: "h' = h1 @ new2" "length (filter isWrite new2) \<le> n"
        "length (filter (\<lambda>e. \<not> isWrite e) new2) \<le> n"
        "\<not> skip \<longrightarrow> er = None \<and> new2 \<noteq> [] \<and> writeSucceeded (last new2)" by blast
    have "h' = h @ (new1 @ new2)" using n1(1) n2(1) by simp
    moreover have "length (filter isWrite (new1 @ new2)) \<le> Suc n" using n1(2) n2(2) by simp
    moreover have "length (filter (\<lambda>e. \<not> isWrite e) (new1 @ new2)) \<le> Suc n" using n1(3) n2(3) by simp
    moreover have "\<not> skip \<longrightarrow> er = None \<and> new1 @ new2 \<noteq> [] \<and> writeSucceeded (last (new1 @ new2))"
      using n2(4) by auto
    ultimately show ?thesis by blast
  qed
qed

lemma specReconcile_three_failures:
  assumes "specAttempt st rc pf g info cs h0 = Return (Again a1, h1)"
    and "specAttempt st rc pf g info cs h1 = Return (Again a2, h2)"
    and "specAttempt st rc pf g info cs h2 = Return (Again a3, h3)"
  shows "\<exists>e3. a3 = Some e3 \<and> specReconcile st rc pf g info cs 3 err h0 = Return ((True, Some e3), h3)"
proof -
  from specAttempt_history[OF assms(3)] obtain e3 where "a3 = Some e3" by auto
  moreover have "specReconcile st rc pf g info cs 3 err h0 = Return ((True, a3), h3)"
    using assms by (simp add: numeral_3_eq_3)
  ultimately show ?thesis by simp
qed


text \<open>
  C3: with a control state that has a \<open>Uri\<close>, and once the ports are resolved,
  \<open>ConfigK8sAdmissionControl\<close> is the specification's loop of at most three attempts,
  and each pass of the source's loop body is the specification's attempt: read again,
  select by the truth table, apply. Whenever it returns, the store has seen at most
  three writes and three reads after the port resolution; skip = false comes with no
  error and only right after a write that succeeded; and after three failed attempts
  it returns skip = true with the error of the third.
\<close>

theorem ConfigK8sAdmissionControl_three_attempts:
  assumes "ctrlState = Some cs" and "Uri cs \<noteq> []"
    and "resolvePorts st rc pf g (WebhooksInfo k8sResInfo) h = Return (infos, h0)"
  shows "ConfigK8sAdmissionControl st rc pf g k8sResInfo ctrlState h
           = specReconcile st rc pf g (k8sResInfo\<lparr>WebhooksInfo := infos\<rparr>) cs 3 None h0
     \<and> (\<forall>h1. attemptOnce st rc pf g (k8sResInfo\<lparr>WebhooksInfo := infos\<rparr>) cs h1
             = specAttempt st rc pf g (k8sResInfo\<lparr>WebhooksInfo := infos\<rparr>) cs h1)
     \<and> (\<forall>skip err h'.
           ConfigK8sAdmissionControl st rc pf g k8sResInfo ctrlState h = Return ((skip, err), h') \<longrightarrow>
           (\<exists>new. h' = h0 @ new
              \<and> length (filter isWrite new) \<le> 3
              \<and> length (filter (\<lambda>e. \<not> isWrite e) new) \<le> 3
              \<and> (\<not> skip \<longrightarrow> err = None \<and> new \<noteq> [] \<and> writeSucceeded (last new))))
     \<and> (\<forall>a1 h1 a2 h2 a3 h3.
           attemptOnce st rc pf g (k8sResInfo\<lparr>WebhooksInfo := infos\<rparr>) cs h0 = Return (Again a1, h1)
           \<and> attemptOnce st rc pf g (k8sResInfo\<lparr>WebhooksInfo := infos\<rparr>) cs h1 = Return (Again a2, h2)
           \<and> attemptOnce st rc pf g (k8sResInfo\<lparr>WebhooksInfo := infos\<rparr>) cs h2 = Return (Again a3, h3) \<longrightarrow>
           (\<exists>e3. a3 = Some e3
              \<and> ConfigK8sAdmissionControl st rc pf g k8sResInfo ctrlState h = Return ((True, Some e3), h3)))"
proof -
  let ?info = "k8sResInfo\<lparr>WebhooksInfo := infos\<rparr>"
  have eq: "ConfigK8sAdmissionControl st rc pf g k8sResInfo ctrlState h
           = specReconcile st rc pf g ?info cs 3 None h0"
    using assms retryLoop_eq[of 0 st rc pf g ?info cs None h0]
    by (simp add: ConfigK8sAdmissionControl_def)
  have a: "\<forall>h1. attemptOnce st rc pf g ?info cs h1 = specAttempt st rc pf g ?info cs h1"
    by (simp add: attemptOnce_eq)
  have b: "\<forall>skip err h'.
           ConfigK8sAdmissionControl st rc pf g k8sResInfo ctrlState h = Return ((skip, err), h') \<longrightarrow>
           (\<exists>new. h' = h0 @ new
              \<and> length (filter isWrite new) \<le> 3
              \<and> length (filter (\<lambda>e. \<not> isWrite e) new) \<le> 3
              \<and> (\<not> skip \<longrightarrow> err = None \<and> new \<noteq> [] \<and> writeSucceeded (last new)))"
    unfolding eq using specReconcile_history by blast
  have c: "\<forall>a1 h1 a2 h2 a3 h3.
           attemptOnce st rc pf g ?info cs h0 = Return (Again a1, h1)
           \<and> attemptOnce st rc pf g ?info cs h1 = Return (Again a2, h2)
           \<and> attemptOnce st rc pf g ?info cs h2 = Return (Again a3, h3) \<longrightarrow>
           (\<exists>e3. a3 = Some e3
              \<and> ConfigK8sAdmissionControl st rc pf g k8sResInfo ctrlState h = Return ((True, Some e3), h3))"
    unfolding eq attemptOnce_eq using specReconcile_three_failures by blast
  from eq a b c show ?thesis by blast
qed

lemmas reconcile_eval = enabledState_def crdInfo_def rc0_def specAttempt_def specTruthTable_def
        isK8sConfiguredAsExpected_def GetResource_def conflictStore_def scriptStore_def constStore_def AllNamespaces_def
        K8sResOpCreate_def K8sResOpDelete_def K8sResOpUpdate_def
        configK8sAdmCtrlValidateResource_def pfAt_def crdRegistry_def SetCABundle_def emptyRegistry_def
        caBundleOf_def AddResource_def Let_def numeral_3_eq_3

theorem ConfigK8sAdmissionControl_three_attempts_witness:
  "(\<exists>h'. ConfigK8sAdmissionControl conflictStore rc0 (pfAt (1, 22)) crdRegistry crdInfo
            (Some enabledState) [] = Return ((True, Some ''conflict on the third write''), h')
         \<and> length h' = 6)
   \<and> (\<exists>h'. ConfigK8sAdmissionControl (constStore (Inl ''not found'')) rc0 (pfAt (1, 22)) crdRegistry
            crdInfo (Some enabledState) [] = Return ((False, None), h')
         \<and> length h' = 2 \<and> writeSucceeded (last h'))"
proof -
  have u: "Uri enabledState \<noteq> []" by (simp add: enabledState_def)
  have r: "resolvePorts st rc0 pf g (WebhooksInfo crdInfo) [] = Return (WebhooksInfo crdInfo, [])"
    for st pf g
    by (simp add: crdInfo_def rc0_def)
  have i: "crdInfo\<lparr>WebhooksInfo := WebhooksInfo crdInfo\<rparr> = crdInfo" by simp
  note t1 = ConfigK8sAdmissionControl_three_attempts [OF refl u r, THEN conjunct1, unfolded i]
  show ?thesis
    unfolding t1 by (simp add: reconcile_eval)
qed


subsection \<open>C6: verifying a namespace twice\<close>

lemma applyLabelKeys_other:
  "k \<notin> fst ` set lk \<Longrightarrow> fst (applyLabelKeys v lk (l, b)) k = l k"
  by (induction lk arbitrary: l b) (auto simp: Let_def split: option.splits)

lemma labelMismatch_Cons:
  "labelMismatch ((k, se) # rest) l
     = ((case se of None \<Rightarrow> False | Some b \<Rightarrow> (b \<and> l k = None) \<or> (\<not> b \<and> l k \<noteq> None))
        \<or> labelMismatch rest l)"
  by (auto simp: labelMismatch_def Let_def split: option.splits)

lemma labelMismatch_Nil: "labelMismatch [] l = False"
  by (simp add: labelMismatch_def)

lemma applyLabelKeys_corrects:
  "distinct (map fst lk) \<Longrightarrow> \<not> labelMismatch lk (fst (applyLabelKeys v lk (l, b)))"
proof (induction lk arbitrary: l b)
  case Nil
  show ?case by (simp add: labelMismatch_Nil)
next
  case (Cons p rest)
  obtain k se where p: "p = (k, se)" by (cases p)
  from Cons.prems p have k: "k \<notin> fst ` set rest" and d: "distinct (map fst rest)" by auto
  show ?case
  proof (cases se)
    case None
    with p Cons.IH[OF d] show ?thesis by (simp add: labelMismatch_Cons)
  next
    case (Some want)
    show ?thesis
      using p Some Cons.IH[OF d] applyLabelKeys_other[OF k]
      by (auto simp: labelMismatch_Cons Let_def)
  qed
qed

lemma applyLabelKeys_fixed:
  "\<not> labelMismatch lk l \<Longrightarrow> applyLabelKeys v lk (l, b) = (l, b)"
proof (induction lk arbitrary: l b)
  case Nil
  show ?case by simp
next
  case (Cons p rest)
  obtain k se where p: "p = (k, se)" by (cases p)
  with Cons show ?case
    by (cases se) (auto simp: labelMismatch_Cons Let_def)
qed


lemma applyLabelKeys_flag_True: "snd (applyLabelKeys v lk (l, True)) = True"
  by (induction lk arbitrary: l) (auto simp: Let_def split: option.splits)

lemma applyLabelKeys_unchanged:
  "snd (applyLabelKeys v lk (l, b)) = False \<Longrightarrow> fst (applyLabelKeys v lk (l, b)) = l"
proof (induction lk arbitrary: l b)
  case Nil
  show ?case by simp
next
  case (Cons p rest)
  obtain k se where p: "p = (k, se)" by (cases p)
  show ?case
  proof (cases se)
    case None
    with p Cons show ?thesis by simp
  next
    case (Some want)
    show ?thesis
    proof (cases "(want \<and> l k = None) \<or> (\<not> want \<and> l k \<noteq> None)")
      case True
      with p Some Cons.prems applyLabelKeys_flag_True show ?thesis
        by (auto simp: Let_def)
    next
      case False
      with p Some Cons show ?thesis by (auto simp: Let_def)
    qed
  qed
qed

lemma nsTable_snoc: "nsTable init (h @ [ev]) = applyEvent (nsTable init h) ev"
  by (simp add: nsTable_def)

lemma workSingleK8sNsLabels_nsStore:
  assumes t: "nsTable init h nsName = Some (NamespaceObj (Some ns))"
    and md: "ns_Metadata ns = Some md" and nm: "meta_Name md = Some nsName"
    and d: "distinct (map fst lk)"
  shows "\<exists>h1 ns' md'.
           workSingleK8sNsLabels (nsStore init) si nsName lk h = Return (None, h1)
           \<and> nsTable init h1 nsName = Some (NamespaceObj (Some ns'))
           \<and> ns_Metadata ns' = Some md' \<and> meta_Name md' = Some nsName
           \<and> \<not> labelMismatch lk (labelsOf md')
           \<and> (\<not> labelMismatch lk (labelsOf md) \<longrightarrow>
                h1 = h @ [GetEv RscTypeNamespace [] nsName (Inr (NamespaceObj (Some ns)))])"
proof -
  let ?get = "GetEv RscTypeNamespace [] nsName (Inr (NamespaceObj (Some ns)))"
  obtain labels1 needUpdate where a:
    "applyLabelKeys (nsSelectorValue si) lk (labelsOf md, False) = (labels1, needUpdate)"
    by (cases "applyLabelKeys (nsSelectorValue si) lk (labelsOf md, False)") auto
  have ok: "\<not> labelMismatch lk labels1"
    using applyLabelKeys_corrects[OF d, of "nsSelectorValue si" "labelsOf md" False] a by simp
  have g: "GetResource (nsStore init) RscTypeNamespace [] nsName h
             = (Inr (NamespaceObj (Some ns)), h @ [?get])"
    using t by (simp add: GetResource_def nsStore_def Let_def)
  show ?thesis
  proof (cases needUpdate)
    case True
    let ?obj = "NamespaceObj (Some (ns\<lparr>ns_Metadata := Some (md\<lparr>Labels := Some labels1\<rparr>)\<rparr>))"
    let ?h1 = "h @ [?get] @ [UpdateEv RscTypeNamespace ?obj None]"
    have w: "workSingleK8sNsLabels (nsStore init) si nsName lk h = Return (None, ?h1)"
      using g md a True
      by (simp add: workSingleK8sNsLabels_def labelsOf_def UpdateResource_def nsStore_def Let_def)
    have tb: "nsTable init ?h1 nsName = Some ?obj"
      using nm by (simp add: nsTable_def)
    have nf: "labelMismatch lk (labelsOf md)"
      using applyLabelKeys_fixed[of lk "labelsOf md" "nsSelectorValue si" False] a True by auto
    show ?thesis
      using w tb nm ok nf by (auto simp: labelsOf_def)
  next
    case False
    have w: "workSingleK8sNsLabels (nsStore init) si nsName lk h = Return (None, h @ [?get])"
      using g md a False
      by (simp add: workSingleK8sNsLabels_def labelsOf_def Let_def)
    have tb: "nsTable init (h @ [?get]) nsName = Some (NamespaceObj (Some ns))"
      using t by (simp add: nsTable_def)
    have "labels1 = labelsOf md"
      using applyLabelKeys_unchanged[of "nsSelectorValue si" lk "labelsOf md" False] a False by simp
    with ok have "\<not> labelMismatch lk (labelsOf md)" by simp
    with w tb md nm show ?thesis by auto
  qed
qed


text \<open>
  C6: take the store that keeps what is written, a namespace stored under its name, and
  any fixed policy state; let the skip key and the status key be different constants.
  Run \<open>VerifyK8sNs\<close> twice in succession, the second time with the same labels as the
  first (or, if the first run was given the labels the store holds, with any labels).
  Then both runs return and the second run makes no write call. If the first run
  reached the store, or was given the labels the store holds, then after it the stored
  labels agree with every decided entry of the desired map.
\<close>

theorem VerifyK8sNs_twice_no_write:
  assumes keys: "NsSelectorKeySkipNV rc \<noteq> NsSelectorKeyStatusNV rc"
    and t: "nsTable init h nsName = Some (NamespaceObj (Some ns))"
    and md: "ns_Metadata ns = Some md" and nm: "meta_Name md = Some nsName"
    and same: "nsLabels2 = nsLabels1 \<or> nsLabels1 = Labels md"
  shows "\<exists>h1 h2 new.
           VerifyK8sNs (nsStore init) rc pf si admCtrlEnabled nsName nsLabels1 h = Return h1
           \<and> VerifyK8sNs (nsStore init) rc pf si admCtrlEnabled nsName nsLabels2 h1 = Return h2
           \<and> h2 = h1 @ new \<and> list_all (\<lambda>e. \<not> isWrite e) new
           \<and> (h1 \<noteq> h \<or> nsLabels1 = Labels md \<longrightarrow>
                (\<exists>ns' md'. nsTable init h1 nsName = Some (NamespaceObj (Some ns'))
                   \<and> ns_Metadata ns' = Some md'
                   \<and> \<not> labelMismatch (desiredLabelKeys rc pf si admCtrlEnabled nsName)
                         (labelsOf md')))"
proof -
  let ?lk = "desiredLabelKeys rc pf si admCtrlEnabled nsName"
  let ?st = "nsStore init"
  let ?given = "\<lambda>nsLabels. (case nsLabels of None \<Rightarrow> Map.empty | Some m \<Rightarrow> m)"
  have d: "distinct (map fst ?lk)" using keys by (rule distinct_desiredLabelKeys)
  have second: "\<exists>h2 new. VerifyK8sNs ?st rc pf si admCtrlEnabled nsName nsLabels2 h1 = Return h2
      \<and> h2 = h1 @ new \<and> list_all (\<lambda>e. \<not> isWrite e) new"
    if t1: "nsTable init h1 nsName = Some (NamespaceObj (Some ns'))"
      and md1: "ns_Metadata ns' = Some md'" and nm1: "meta_Name md' = Some nsName"
      and ok: "\<not> labelMismatch ?lk (labelsOf md')"
    for h1 ns' md'
  proof (cases "labelMismatch ?lk (?given nsLabels2)")
    case False
    then have "VerifyK8sNs ?st rc pf si admCtrlEnabled nsName nsLabels2 h1 = Return h1"
      by (simp add: VerifyK8sNs_def)
    then show ?thesis by simp
  next
    case True
    from workSingleK8sNsLabels_nsStore[OF t1 md1 nm1 d, of si] ok obtain h2 where
      w: "workSingleK8sNsLabels ?st si nsName ?lk h1 = Return (None, h2)"
      and h2: "h2 = h1 @ [GetEv RscTypeNamespace [] nsName (Inr (NamespaceObj (Some ns')))]"
      by blast
    from True w have "VerifyK8sNs ?st rc pf si admCtrlEnabled nsName nsLabels2 h1 = Return h2"
      by (simp add: VerifyK8sNs_def)
    with h2 show ?thesis by simp
  qed
  show ?thesis
  proof (cases "labelMismatch ?lk (?given nsLabels1)")
    case True
    from workSingleK8sNsLabels_nsStore[OF t md nm d, of si] obtain h1 ns' md' where
      w: "workSingleK8sNsLabels ?st si nsName ?lk h = Return (None, h1)"
      and r: "nsTable init h1 nsName = Some (NamespaceObj (Some ns'))"
        "ns_Metadata ns' = Some md'" "meta_Name md' = Some nsName"
        "\<not> labelMismatch ?lk (labelsOf md')" by blast
    from True w have v1: "VerifyK8sNs ?st rc pf si admCtrlEnabled nsName nsLabels1 h = Return h1"
      by (simp add: VerifyK8sNs_def)
    from second[OF r] v1 r show ?thesis by blast
  next
    case False
    then have v1: "VerifyK8sNs ?st rc pf si admCtrlEnabled nsName nsLabels1 h = Return h"
      by (simp add: VerifyK8sNs_def)
    from same show ?thesis
    proof
      assume e: "nsLabels2 = nsLabels1"
      with False have "VerifyK8sNs ?st rc pf si admCtrlEnabled nsName nsLabels2 h = Return h"
        by (simp add: VerifyK8sNs_def)
      moreover have "nsLabels1 = Labels md \<longrightarrow> \<not> labelMismatch ?lk (labelsOf md)"
        using False by (auto simp: labelsOf_def)
      ultimately show ?thesis using v1 t md by auto
    next
      assume c: "nsLabels1 = Labels md"
      with False have ok: "\<not> labelMismatch ?lk (labelsOf md)" by (simp add: labelsOf_def)
      from second[OF t md nm ok] v1 t md ok show ?thesis by blast
    qed
  qed
qed

theorem VerifyK8sNs_twice_no_write_witness:
  "labelMismatch (desiredLabelKeys rc0 (pfAt (1, 20)) devPolicy True ''dev-a'') Map.empty
   \<and> (\<exists>h1 h2 new.
           VerifyK8sNs (nsStore [''dev-a'' \<mapsto> NamespaceObj (Some devNamespace)]) rc0 (pfAt (1, 20))
              devPolicy True ''dev-a'' None [] = Return h1
           \<and> VerifyK8sNs (nsStore [''dev-a'' \<mapsto> NamespaceObj (Some devNamespace)]) rc0 (pfAt (1, 20))
              devPolicy True ''dev-a'' None h1 = Return h2
           \<and> h2 = h1 @ new \<and> list_all (\<lambda>e. \<not> isWrite e) new
           \<and> (\<exists>ns' md'. nsTable [''dev-a'' \<mapsto> NamespaceObj (Some devNamespace)] h1 ''dev-a''
                   = Some (NamespaceObj (Some ns'))
                 \<and> ns_Metadata ns' = Some md'
                 \<and> \<not> labelMismatch (desiredLabelKeys rc0 (pfAt (1, 20)) devPolicy True ''dev-a'')
                       (labelsOf md')))"
proof -
  have k: "NsSelectorKeySkipNV rc0 \<noteq> NsSelectorKeyStatusNV rc0" by (simp add: rc0_def)
  have t: "nsTable [''dev-a'' \<mapsto> NamespaceObj (Some devNamespace)] [] ''dev-a''
             = Some (NamespaceObj (Some devNamespace))"
    by (simp add: nsTable_def)
  have m: "ns_Metadata devNamespace
             = Some \<lparr>meta_Name = Some ''dev-a'', ResourceVersion = Some ''1'', Labels = None\<rparr>"
    by (simp add: devNamespace_def)
  have mm: "labelMismatch (desiredLabelKeys rc0 (pfAt (1, 20)) devPolicy True ''dev-a'') Map.empty"
    by (simp add: labelMismatch_def desiredLabelKeys_def rc0_def pfAt_def devPolicy_def Let_def)
  from VerifyK8sNs_twice_no_write [OF k t m, of None None "pfAt (1, 20)" devPolicy True] mm
  show ?thesis by auto
qed


subsection \<open>C7: the poll loop of the initiator probe\<close>

lemma atPoll_0: "atPoll h 0 h"
  by (simp add: atPoll_def)

lemma atPoll_snoc: "atPoll h j h' \<Longrightarrow> \<not> isWrite ev \<Longrightarrow> atPoll h (Suc j) (h' @ [ev])"
  by (auto simp: atPoll_def)

lemma pollLoop_unfold:
  "pollLoop st rc pf g sel svcname tag i h =
     (if i < 10 then
        (case sel i of
           Ticker \<Rightarrow>
             (case GetValidateWebhookSvcInfo st rc pf g svcname h of
                Panic \<Rightarrow> Panic
              | Return ((err, svcInfo), h1) \<Rightarrow>
                  if err = None \<and> LabelTag svcInfo = tag \<and> LabelEcho svcInfo = tag
                  then Return ((TestSucceeded, None), h1)
                  else pollLoop st rc pf g sel svcname tag (i + 1) h1)
         | Signal \<Rightarrow> Return ((TestAborted, None), h))
      else Return ((TestFailed, None), h))"
  by (rule pollLoop.simps)

lemma pollLoop_failed_poll:
  assumes "i < 10" "sel i = Ticker" "pollFails st rc pf g svcname tag h"
  shows "\<exists>ev. \<not> isWrite ev \<and>
           pollLoop st rc pf g sel svcname tag i h = pollLoop st rc pf g sel svcname tag (Suc i) (h @ [ev])"
proof -
  from assms(3) obtain e info h1 where
    g: "GetValidateWebhookSvcInfo st rc pf g svcname h = Return ((e, info), h1)"
    and n: "\<not> (e = None \<and> LabelTag info = tag \<and> LabelEcho info = tag)"
    by (auto simp: pollFails_def)
  from GetValidateWebhookSvcInfo_history[OF g] obtain r where
    h1: "h1 = h @ [GetEv RscTypeService (NvAdmSvcNamespace rc) svcname r]" by blast
  have "pollLoop st rc pf g sel svcname tag i h = pollLoop st rc pf g sel svcname tag (Suc i) h1"
    using assms(1,2) g n by (subst pollLoop_unfold) (auto simp del: pollLoop.simps)
  with h1 show ?thesis by (intro exI[of _ "GetEv RscTypeService (NvAdmSvcNamespace rc) svcname r"]) simp
qed

lemma pollLoop_failed_polls:
  assumes "n \<le> 10"
    and "\<forall>j<n. sel j = Ticker"
    and "\<forall>j<n. \<forall>h'. atPoll h j h' \<longrightarrow> pollFails st rc pf g svcname tag h'"
  shows "\<exists>h'. atPoll h n h' \<and>
           pollLoop st rc pf g sel svcname tag 0 h = pollLoop st rc pf g sel svcname tag n h'"
  using assms
proof (induction n)
  case 0
  have "atPoll h 0 h" by (rule atPoll_0)
  then show ?case by blast
next
  case (Suc n)
  have p1: "n \<le> 10" using Suc.prems(1) by simp
  have p2: "\<forall>j<n. sel j = Ticker" using Suc.prems(2) by simp
  have p3: "\<forall>j<n. \<forall>h'. atPoll h j h' \<longrightarrow> pollFails st rc pf g svcname tag h'"
    using Suc.prems(3) by (meson less_Suc_eq)
  from Suc.IH[OF p1 p2 p3] obtain h' where a: "atPoll h n h'"
    and e: "pollLoop st rc pf g sel svcname tag 0 h = pollLoop st rc pf g sel svcname tag n h'"
    by blast
  have q1: "n < 10" using Suc.prems(1) by simp
  have q2: "sel n = Ticker" using Suc.prems(2) by simp
  have q3: "pollFails st rc pf g svcname tag h'" using Suc.prems(3) a by (meson lessI)
  from pollLoop_failed_poll[of n sel st rc pf g svcname tag h', OF q1 q2 q3] obtain ev where
    ev: "\<not> isWrite ev"
      "pollLoop st rc pf g sel svcname tag n h' = pollLoop st rc pf g sel svcname tag (Suc n) (h' @ [ev])"
    by blast
  have "atPoll h (Suc n) (h' @ [ev])" using a ev(1) by (rule atPoll_snoc)
  moreover have "pollLoop st rc pf g sel svcname tag 0 h
      = pollLoop st rc pf g sel svcname tag (Suc n) (h' @ [ev])"
    using e ev(2) by (rule trans)
  ultimately show ?case by blast
qed

lemma echoDiffers_pollFails:
  "echoDiffers st rc pf g svcname tag h \<Longrightarrow> pollFails st rc pf g svcname tag h"
  by (auto simp: echoDiffers_def pollFails_def)

lemma pollLoop_exhausted:
  assumes "\<forall>j<10. sel j = Ticker"
    and "\<forall>j<10. \<forall>h'. atPoll h j h' \<longrightarrow> pollFails st rc pf g svcname tag h'"
  shows "\<exists>h'. atPoll h 10 h' \<and>
           pollLoop st rc pf g sel svcname tag 0 h = Return ((TestFailed, None), h')"
proof -
  from pollLoop_failed_polls[of 10 sel h st rc pf g svcname tag, OF _ assms] obtain h' where
    a: "atPoll h 10 h'"
    and e: "pollLoop st rc pf g sel svcname tag 0 h = pollLoop st rc pf g sel svcname tag 10 h'"
    by blast
  have "pollLoop st rc pf g sel svcname tag 10 h' = Return ((TestFailed, None), h')"
    by (subst pollLoop_unfold) simp
  with a e show ?thesis by metis
qed


lemma pollLoop_succeeds_at:
  assumes k: "k < 10"
    and t: "\<forall>j\<le>k. sel j = Ticker"
    and f: "\<forall>j<k. \<forall>h'. atPoll h j h' \<longrightarrow> pollFails st rc pf g svcname tag h'"
    and s: "\<forall>h'. atPoll h k h' \<longrightarrow> pollSucceeds st rc pf g svcname tag h'"
  shows "\<exists>h'. atPoll h (Suc k) h' \<and>
           pollLoop st rc pf g sel svcname tag 0 h = Return ((TestSucceeded, None), h')"
proof -
  have k10: "k \<le> 10" using k by simp
  have t': "\<forall>j<k. sel j = Ticker" using t by simp
  from pollLoop_failed_polls[of k sel h st rc pf g svcname tag, OF k10 t' f] obtain h' where
    a: "atPoll h k h'"
    and e: "pollLoop st rc pf g sel svcname tag 0 h = pollLoop st rc pf g sel svcname tag k h'"
    by blast
  from s a obtain info h1 where
    g: "GetValidateWebhookSvcInfo st rc pf g svcname h' = Return ((None, info), h1)"
    and m: "LabelTag info = tag" "LabelEcho info = tag"
    by (auto simp: pollSucceeds_def)
  from GetValidateWebhookSvcInfo_history[OF g] obtain r where
    h1: "h1 = h' @ [GetEv RscTypeService (NvAdmSvcNamespace rc) svcname r]" by blast
  have sk: "sel k = Ticker" using t by simp
  have "pollLoop st rc pf g sel svcname tag k h' = Return ((TestSucceeded, None), h1)"
    using k sk g m by (subst pollLoop_unfold) (simp del: pollLoop.simps)
  moreover have "atPoll h (Suc k) h1" unfolding h1 using a by (rule atPoll_snoc) simp
  ultimately show ?thesis using e by metis
qed

lemma pollLoop_aborted_at:
  assumes k: "k < 10"
    and t: "\<forall>j<k. sel j = Ticker"
    and f: "\<forall>j<k. \<forall>h'. atPoll h j h' \<longrightarrow> pollFails st rc pf g svcname tag h'"
    and s: "sel k = Signal"
  shows "\<exists>h'. atPoll h k h' \<and>
           pollLoop st rc pf g sel svcname tag 0 h = Return ((TestAborted, None), h')"
proof -
  have k10: "k \<le> 10" using k by simp
  from pollLoop_failed_polls[of k sel h st rc pf g svcname tag, OF k10 t f] obtain h' where
    a: "atPoll h k h'"
    and e: "pollLoop st rc pf g sel svcname tag 0 h = pollLoop st rc pf g sel svcname tag k h'"
    by blast
  have "pollLoop st rc pf g sel svcname tag k h' = Return ((TestAborted, None), h')"
    using k s by (subst pollLoop_unfold) (simp del: pollLoop.simps)
  with a e show ?thesis by metis
qed


lemmas probe_eval = GetValidateWebhookSvcInfo_def GetResource_def constStore_def scriptStore_def
  probeRegistry_def SetCABundle_def emptyRegistry_def probeSvc_def readSvcLabels_def
  lookupLabel_def withNodePort_def Let_def

lemma neverEcho_differs: "echoDiffers neverEcho rc pf probeRegistry ''svc'' ''123'' h'"
  by (simp add: echoDiffers_def neverEcho_def probe_eval)

lemma neverEcho_fails: "pollFails neverEcho rc pf probeRegistry ''svc'' ''123'' h'"
  using neverEcho_differs by (rule echoDiffers_pollFails)

lemma foreignTag_fails: "pollFails foreignTag rc pf probeRegistry ''svc'' ''123'' h'"
  by (simp add: pollFails_def foreignTag_def probe_eval)

lemma echoAtThirdRead_fails:
  "length h' < 2 \<Longrightarrow> pollFails echoAtThirdRead rc pf probeRegistry ''svc'' ''123'' h'"
  by (simp add: pollFails_def echoAtThirdRead_def probe_eval)

lemma echoAtThirdRead_succeeds:
  "length h' = 2 \<Longrightarrow> pollSucceeds echoAtThirdRead rc pf probeRegistry ''svc'' ''123'' h'"
  by (simp add: pollSucceeds_def echoAtThirdRead_def probe_eval)


text \<open>
  After a first read that yields a service with metadata and a resource version, with
  label keys on record, and a write that succeeds, \<open>TestAdmWebhookConnection\<close> is the
  poll loop started with the tag it wrote.
\<close>

lemma TestAdmWebhookConnection_polls:
  assumes "getReply st h RscTypeService (NvAdmSvcNamespace rc) svcname = Inr (ServiceObj (Some svc))"
    and "svcLabelKeys g svcname = Some keys"
    and "svc_Metadata svc = Some md" and "ResourceVersion md \<noteq> None"
    and "\<forall>h1 obj. updateReply st h1 RscTypeService obj = None"
  shows "\<exists>obj. TestAdmWebhookConnection st rc pf g now sel svcname h
           = pollLoop st rc pf g sel svcname (sprintf_d now) 0
               (h @ [GetEv RscTypeService (NvAdmSvcNamespace rc) svcname (Inr (ServiceObj (Some svc))),
                     UpdateEv RscTypeService obj None])"
  using assms
  by (auto simp: TestAdmWebhookConnection_def GetResource_def UpdateResource_def Let_def)

lemma pollLoop_outcome:
  "10 - i = n \<Longrightarrow> i \<le> 10 \<Longrightarrow>
   pollLoop st rc pf g sel svcname tag i h = Return ((r, e), h') \<Longrightarrow>
   e = None \<and> (\<exists>new. h' = h @ new \<and> list_all (\<lambda>ev. \<not> isWrite ev) new
      \<and> endsAsOneOfThree st rc pf g sel svcname tag i h r new)"
proof (induction n arbitrary: i h)
  case 0
  then have i: "i = 10" by simp
  from 0(3) have "r = TestFailed" "e = None" "h' = h"
    unfolding i by (subst (asm) pollLoop_unfold, simp)+
  then show ?case by (simp add: endsAsOneOfThree_def i)
next
  case (Suc n)
  then have lt: "i < 10" by simp
  show ?case
  proof (cases "sel i")
    case Signal
    from Suc.prems(3) lt Signal have "r = TestAborted" "e = None" "h' = h"
      by (subst (asm) pollLoop_unfold, simp)+
    with lt Signal show ?thesis by (simp add: endsAsOneOfThree_def)
  next
    case Ticker
    show ?thesis
    proof (cases "GetValidateWebhookSvcInfo st rc pf g svcname h")
      case Panic
      from Suc.prems(3) lt Ticker Panic show ?thesis
        by (subst (asm) pollLoop_unfold) simp
    next
      case (Return x)
      obtain err info h1 where x: "x = ((err, info), h1)" by (cases x) auto
      from GetValidateWebhookSvcInfo_history[OF Return[unfolded x]] obtain rp where
        h1: "h1 = h @ [GetEv RscTypeService (NvAdmSvcNamespace rc) svcname rp]" by blast
      let ?ev = "GetEv RscTypeService (NvAdmSvcNamespace rc) svcname rp"
      show ?thesis
      proof (cases "err = None \<and> LabelTag info = tag \<and> LabelEcho info = tag")
        case True
        from Suc.prems(3) lt Ticker Return x True have res: "r = TestSucceeded" "e = None" "h' = h1"
          by (subst (asm) pollLoop_unfold, simp)+
        have ps: "pollSucceeds st rc pf g svcname tag h"
          using Return x True by (auto simp: pollSucceeds_def)
        have "h' = h @ [?ev]" using res h1 by simp
        moreover have "list_all (\<lambda>ev. \<not> isWrite ev) [?ev]" by simp
        moreover have "endsAsOneOfThree st rc pf g sel svcname tag i h r [?ev]"
          using res ps lt by (simp add: endsAsOneOfThree_def)
        ultimately show ?thesis using res(2) by blast
      next
        case False
        from Suc.prems(3) lt Ticker Return x False
        have rec: "pollLoop st rc pf g sel svcname tag (i + 1) h1 = Return ((r, e), h')"
          by (subst (asm) pollLoop_unfold) simp
        have n: "10 - (i + 1) = n" using Suc.prems(1) by simp
        have le: "i + 1 \<le> 10" using lt by simp
        from Suc.IH[OF n le rec] obtain new1 where
          e: "e = None" and h': "h' = h1 @ new1"
          and nw: "list_all (\<lambda>ev. \<not> isWrite ev) new1"
          and o: "endsAsOneOfThree st rc pf g sel svcname tag (i + 1) h1 r new1" by blast
        have "h' = h @ (?ev # new1)" using h' h1 by simp
        moreover have "list_all (\<lambda>ev. \<not> isWrite ev) (?ev # new1)" using nw by simp
        moreover have "endsAsOneOfThree st rc pf g sel svcname tag i h r (?ev # new1)"
          using o h1 by (auto simp: endsAsOneOfThree_def)
        ultimately show ?thesis using e by blast
      qed
    qed
  qed
qed

lemma pollLoop_returns:
  assumes "servicesHaveMetadata st"
  shows "10 - i = n \<Longrightarrow> \<exists>x. pollLoop st rc pf g sel svcname tag i h = Return x"
proof (induction n arbitrary: i h)
  case 0
  then have "\<not> i < 10" by simp
  then show ?case by (subst pollLoop_unfold) simp
next
  case (Suc n)
  then have lt: "i < 10" by simp
  show ?case
  proof (cases "sel i")
    case Signal
    with lt show ?thesis by (subst pollLoop_unfold) simp
  next
    case Ticker
    from GetValidateWebhookSvcInfo_returns[OF assms, of rc pf g svcname h] obtain x rp where
      g: "GetValidateWebhookSvcInfo st rc pf g svcname h
            = Return (x, h @ [GetEv RscTypeService (NvAdmSvcNamespace rc) svcname rp])" by blast
    obtain err info where x: "x = (err, info)" by (cases x)
    have n: "10 - (i + 1) = n" using Suc.prems by simp
    from Suc.IH[OF n] obtain y where
      y: "pollLoop st rc pf g sel svcname tag (i + 1)
          (h @ [GetEv RscTypeService (NvAdmSvcNamespace rc) svcname rp]) = Return y" by blast
    show ?thesis
    proof (cases "err = None \<and> LabelTag info = tag \<and> LabelEcho info = tag")
      case True
      with lt Ticker g x show ?thesis by (subst pollLoop_unfold) simp
    next
      case False
      obtain a b c where "y = ((a, b), c)" by (metis surj_pair)
      with False lt Ticker g x y show ?thesis by (subst pollLoop_unfold) simp
    qed
  qed
qed

text \<open>
  C7, as stated, has the probe succeed on the poll on which the echo label equals the
  tag. The source also requires the tag label to equal the tag: with the store below,
  the echo label is "123", the written tag, from the first poll on, the tag label is
  "999", and the loop polls ten times and returns \<open>TestFailed\<close>.
\<close>

theorem pollLoop_echo_alone_counterexample:
  "returned (GetValidateWebhookSvcInfo foreignTag rc0 (pfAt (1, 22)) probeRegistry ''svc'' [])
     = Some (None, \<lparr>Status = 30, SvcNodePort = 443, SvcType = ''ClusterIP'',
                    LabelTag = ''999'', LabelEcho = ''123''\<rparr>)
   \<and> returned (pollLoop foreignTag rc0 (pfAt (1, 22)) probeRegistry (\<lambda>i. Ticker) ''svc'' ''123'' 0 [])
     = Some (TestFailed, None)
   \<and> callsMade (pollLoop foreignTag rc0 (pfAt (1, 22)) probeRegistry (\<lambda>i. Ticker) ''svc'' ''123'' 0 [])
     = 10"
proof -
  have "\<exists>h'. atPoll [] 10 h' \<and>
      pollLoop foreignTag rc0 (pfAt (1, 22)) probeRegistry (\<lambda>i. Ticker) ''svc'' ''123'' 0 []
        = Return ((TestFailed, None), h')"
    by (rule pollLoop_exhausted) (simp_all add: foreignTag_fails)
  then obtain h' where "length h' = 10"
    "pollLoop foreignTag rc0 (pfAt (1, 22)) probeRegistry (\<lambda>i. Ticker) ''svc'' ''123'' 0 []
        = Return ((TestFailed, None), h')"
    by (auto simp: atPoll_def)
  moreover have "returned (GetValidateWebhookSvcInfo foreignTag rc0 (pfAt (1, 22)) probeRegistry ''svc'' [])
     = Some (None, \<lparr>Status = 30, SvcNodePort = 443, SvcType = ''ClusterIP'',
                    LabelTag = ''999'', LabelEcho = ''123''\<rparr>)"
    by (simp add: foreignTag_def probe_eval rc0_def pfAt_def)
  ultimately show ?thesis by simp
qed


text \<open>
  C7 (amended): the poll loop makes at most 10 passes, each one a \<open>select\<close> between the
  ticker and the signal, and has exactly three distinct outcomes. If the ticker is taken
  in all 10 passes and the echo label never equals the written tag (or, more generally,
  every poll fails the test of the source), it returns \<open>TestFailed\<close> after exactly 10
  polls. If the ticker is taken up to pass \<open>k\<close> (counted from 0, so poll \<open>k + 1\<close> of at
  most 10), the polls before fail, and poll \<open>k + 1\<close> reads without error a tag label and
  an echo label that both equal the written tag, it returns \<open>TestSucceeded\<close> on that
  poll, after exactly \<open>k + 1\<close> polls. If the signal is taken in pass \<open>m\<close>, after \<open>m\<close>
  failed polls, it returns \<open>TestAborted\<close> with no further poll. The three codes differ.
  Every run that returns does so with no error, with one of the three codes, after at
  most 10 polls and no write, and in the way that belongs to its code: success on the
  last poll made, abortion by the signal in a pass within the budget, or failure after
  all 10 passes. On a store whose service objects have metadata every run returns.
  (The length of the interval between two polls is not part of the model.)
\<close>

theorem pollLoop_three_outcomes:
  "((\<forall>j<10. sel j = Ticker)
      \<and> (\<forall>j<10. \<forall>h'. atPoll h j h' \<longrightarrow> echoDiffers st rc pf g svcname tag h')
     \<longrightarrow> (\<exists>h'. atPoll h 10 h'
            \<and> pollLoop st rc pf g sel svcname tag 0 h = Return ((TestFailed, None), h')))
   \<and> ((\<forall>j<10. sel j = Ticker)
      \<and> (\<forall>j<10. \<forall>h'. atPoll h j h' \<longrightarrow> pollFails st rc pf g svcname tag h')
     \<longrightarrow> (\<exists>h'. atPoll h 10 h'
            \<and> pollLoop st rc pf g sel svcname tag 0 h = Return ((TestFailed, None), h')))
   \<and> (k < 10 \<and> (\<forall>j\<le>k. sel j = Ticker)
      \<and> (\<forall>j<k. \<forall>h'. atPoll h j h' \<longrightarrow> pollFails st rc pf g svcname tag h')
      \<and> (\<forall>h'. atPoll h k h' \<longrightarrow> pollSucceeds st rc pf g svcname tag h')
     \<longrightarrow> (\<exists>h'. atPoll h (Suc k) h'
            \<and> pollLoop st rc pf g sel svcname tag 0 h = Return ((TestSucceeded, None), h')))
   \<and> (m < 10 \<and> (\<forall>j<m. sel j = Ticker)
      \<and> (\<forall>j<m. \<forall>h'. atPoll h j h' \<longrightarrow> pollFails st rc pf g svcname tag h')
      \<and> sel m = Signal
     \<longrightarrow> (\<exists>h'. atPoll h m h'
            \<and> pollLoop st rc pf g sel svcname tag 0 h = Return ((TestAborted, None), h')))
   \<and> TestSucceeded \<noteq> TestFailed \<and> TestSucceeded \<noteq> TestAborted \<and> TestFailed \<noteq> TestAborted
   \<and> (\<forall>r e h'. pollLoop st rc pf g sel svcname tag 0 h = Return ((r, e), h') \<longrightarrow>
         e = None
         \<and> (r = TestSucceeded \<or> r = TestFailed \<or> r = TestAborted)
         \<and> (\<exists>new. h' = h @ new \<and> length new \<le> 10
                \<and> list_all (\<lambda>ev. \<not> isWrite ev) new
                \<and> endsAsOneOfThree st rc pf g sel svcname tag 0 h r new))
   \<and> (servicesHaveMetadata st \<longrightarrow>
         (\<exists>x. pollLoop st rc pf g sel svcname tag 0 h = Return x))"
proof (intro conjI impI allI)
  assume a: "(\<forall>j<10. sel j = Ticker)
      \<and> (\<forall>j<10. \<forall>h'. atPoll h j h' \<longrightarrow> echoDiffers st rc pf g svcname tag h')"
  from a have t: "\<forall>j<10. sel j = Ticker" by (rule conjunct1)
  from a have d: "\<forall>j<10. \<forall>h'. atPoll h j h' \<longrightarrow> echoDiffers st rc pf g svcname tag h'"
    by (rule conjunct2)
  have f: "\<forall>j<10. \<forall>h'. atPoll h j h' \<longrightarrow> pollFails st rc pf g svcname tag h'"
  proof (intro allI impI)
    fix j h'
    assume "j < 10" "atPoll h j h'"
    with d have "echoDiffers st rc pf g svcname tag h'" by (meson)
    then show "pollFails st rc pf g svcname tag h'" by (rule echoDiffers_pollFails)
  qed
  show "\<exists>h'. atPoll h 10 h'
            \<and> pollLoop st rc pf g sel svcname tag 0 h = Return ((TestFailed, None), h')"
    using t f by (rule pollLoop_exhausted)
next
  assume a: "(\<forall>j<10. sel j = Ticker)
      \<and> (\<forall>j<10. \<forall>h'. atPoll h j h' \<longrightarrow> pollFails st rc pf g svcname tag h')"
  from a have t: "\<forall>j<10. sel j = Ticker" by (rule conjunct1)
  from a have f: "\<forall>j<10. \<forall>h'. atPoll h j h' \<longrightarrow> pollFails st rc pf g svcname tag h'"
    by (rule conjunct2)
  show "\<exists>h'. atPoll h 10 h'
            \<and> pollLoop st rc pf g sel svcname tag 0 h = Return ((TestFailed, None), h')"
    using t f by (rule pollLoop_exhausted)
next
  assume b: "k < 10 \<and> (\<forall>j\<le>k. sel j = Ticker)
      \<and> (\<forall>j<k. \<forall>h'. atPoll h j h' \<longrightarrow> pollFails st rc pf g svcname tag h')
      \<and> (\<forall>h'. atPoll h k h' \<longrightarrow> pollSucceeds st rc pf g svcname tag h')"
  from b have b1: "k < 10" by (rule conjunct1)
  from b have b2: "\<forall>j\<le>k. sel j = Ticker" by (elim conjE)
  from b have b3: "\<forall>j<k. \<forall>h'. atPoll h j h' \<longrightarrow> pollFails st rc pf g svcname tag h'"
    by (elim conjE)
  from b have b4: "\<forall>h'. atPoll h k h' \<longrightarrow> pollSucceeds st rc pf g svcname tag h'"
    by (elim conjE)
  show "\<exists>h'. atPoll h (Suc k) h'
            \<and> pollLoop st rc pf g sel svcname tag 0 h = Return ((TestSucceeded, None), h')"
    using b1 b2 b3 b4 by (rule pollLoop_succeeds_at)
next
  assume c: "m < 10 \<and> (\<forall>j<m. sel j = Ticker)
      \<and> (\<forall>j<m. \<forall>h'. atPoll h j h' \<longrightarrow> pollFails st rc pf g svcname tag h')
      \<and> sel m = Signal"
  from c have c1: "m < 10" by (rule conjunct1)
  from c have c2: "\<forall>j<m. sel j = Ticker" by (elim conjE)
  from c have c3: "\<forall>j<m. \<forall>h'. atPoll h j h' \<longrightarrow> pollFails st rc pf g svcname tag h'"
    by (elim conjE)
  from c have c4: "sel m = Signal" by (elim conjE)
  show "\<exists>h'. atPoll h m h'
            \<and> pollLoop st rc pf g sel svcname tag 0 h = Return ((TestAborted, None), h')"
    using c1 c2 c3 c4 by (rule pollLoop_aborted_at)
next
  show "TestSucceeded \<noteq> TestFailed" by (simp add: TestSucceeded_def TestFailed_def)
next
  show "TestSucceeded \<noteq> TestAborted" by (simp add: TestSucceeded_def TestAborted_def)
next
  show "TestFailed \<noteq> TestAborted" by (simp add: TestFailed_def TestAborted_def)
next
  fix r e h'
  assume p: "pollLoop st rc pf g sel svcname tag 0 h = Return ((r, e), h')"
  have o: "e = None \<and> (\<exists>new. h' = h @ new \<and> list_all (\<lambda>ev. \<not> isWrite ev) new
      \<and> endsAsOneOfThree st rc pf g sel svcname tag 0 h r new)"
    using p by (intro pollLoop_outcome[of 0 10]) simp_all
  from o show "e = None" by (rule conjunct1)
  from o obtain new where n: "h' = h @ new" "list_all (\<lambda>ev. \<not> isWrite ev) new"
    "endsAsOneOfThree st rc pf g sel svcname tag 0 h r new" by blast
  from n(3) show "r = TestSucceeded \<or> r = TestFailed \<or> r = TestAborted"
    by (auto simp: endsAsOneOfThree_def)
  from n(3) have "length new \<le> 10" by (simp add: endsAsOneOfThree_def)
  with n show "\<exists>new. h' = h @ new \<and> length new \<le> 10
                \<and> list_all (\<lambda>ev. \<not> isWrite ev) new
                \<and> endsAsOneOfThree st rc pf g sel svcname tag 0 h r new" by blast
next
  assume "servicesHaveMetadata st"
  then show "\<exists>x. pollLoop st rc pf g sel svcname tag 0 h = Return x"
    by (rule pollLoop_returns) simp
qed

theorem pollLoop_three_outcomes_witness:
  "returned (pollLoop neverEcho rc0 (pfAt (1, 22)) probeRegistry (\<lambda>i. Ticker) ''svc'' ''123'' 0 [])
     = Some (TestFailed, None)
   \<and> callsMade (pollLoop neverEcho rc0 (pfAt (1, 22)) probeRegistry (\<lambda>i. Ticker) ''svc'' ''123'' 0 [])
     = 10
   \<and> returned (pollLoop foreignTag rc0 (pfAt (1, 22)) probeRegistry (\<lambda>i. Ticker) ''svc'' ''123'' 0 [])
     = Some (TestFailed, None)
   \<and> returned (pollLoop echoAtThirdRead rc0 (pfAt (1, 22)) probeRegistry (\<lambda>i. Ticker) ''svc'' ''123'' 0 [])
     = Some (TestSucceeded, None)
   \<and> callsMade (pollLoop echoAtThirdRead rc0 (pfAt (1, 22)) probeRegistry (\<lambda>i. Ticker) ''svc'' ''123'' 0 [])
     = 3
   \<and> returned (pollLoop neverEcho rc0 (pfAt (1, 22)) probeRegistry
        (\<lambda>i. if i = 1 then Signal else Ticker) ''svc'' ''123'' 0 [])
     = Some (TestAborted, None)
   \<and> callsMade (pollLoop neverEcho rc0 (pfAt (1, 22)) probeRegistry
        (\<lambda>i. if i = 1 then Signal else Ticker) ''svc'' ''123'' 0 [])
     = 1
   \<and> servicesHaveMetadata echoAtThirdRead
   \<and> (\<exists>x. pollLoop echoAtThirdRead rc0 (pfAt (1, 22)) probeRegistry (\<lambda>i. Ticker) ''svc'' ''123'' 0 []
          = Return x)"
proof -
  note t1 = pollLoop_three_outcomes [where st = neverEcho and rc = rc0 and pf = "pfAt (1, 22)" and g = probeRegistry
      and sel = "\<lambda>i. Ticker" and svcname = "''svc''" and tag = "''123''" and h = "[]"
      and k = 0 and m = 0, THEN conjunct1]
  note t1' = pollLoop_three_outcomes [where st = foreignTag and rc = rc0 and pf = "pfAt (1, 22)" and g = probeRegistry
      and sel = "\<lambda>i. Ticker" and svcname = "''svc''" and tag = "''123''" and h = "[]"
      and k = 0 and m = 0, THEN conjunct2, THEN conjunct1]
  note t2 = pollLoop_three_outcomes [where st = echoAtThirdRead and rc = rc0 and pf = "pfAt (1, 22)" and g = probeRegistry
      and sel = "\<lambda>i. Ticker" and svcname = "''svc''" and tag = "''123''" and h = "[]"
      and k = 2 and m = 0, THEN conjunct2, THEN conjunct2, THEN conjunct1]
  note t3 = pollLoop_three_outcomes [where st = neverEcho and rc = rc0 and pf = "pfAt (1, 22)" and g = probeRegistry
      and sel = "\<lambda>i. if i = 1 then Signal else Ticker" and svcname = "''svc''" and tag = "''123''"
      and h = "[]" and k = 0 and m = 1,
      THEN conjunct2, THEN conjunct2, THEN conjunct2, THEN conjunct1]
  note t5 = pollLoop_three_outcomes [where st = echoAtThirdRead and rc = rc0 and pf = "pfAt (1, 22)" and g = probeRegistry
      and sel = "\<lambda>i. Ticker" and svcname = "''svc''" and tag = "''123''" and h = "[]"
      and k = 0 and m = 0,
      THEN conjunct2, THEN conjunct2, THEN conjunct2, THEN conjunct2, THEN conjunct2,
      THEN conjunct2, THEN conjunct2, THEN conjunct2]
  have a: "\<exists>h'. atPoll [] 10 h' \<and>
      pollLoop neverEcho rc0 (pfAt (1, 22)) probeRegistry (\<lambda>i. Ticker) ''svc'' ''123'' 0 []
        = Return ((TestFailed, None), h')"
    by (rule t1 [rule_format]) (simp add: neverEcho_differs)
  have a': "\<exists>h'. atPoll [] 10 h' \<and>
      pollLoop foreignTag rc0 (pfAt (1, 22)) probeRegistry (\<lambda>i. Ticker) ''svc'' ''123'' 0 []
        = Return ((TestFailed, None), h')"
    by (rule t1' [rule_format]) (simp add: foreignTag_fails)
  have b: "\<exists>h'. atPoll [] (Suc 2) h' \<and>
      pollLoop echoAtThirdRead rc0 (pfAt (1, 22)) probeRegistry (\<lambda>i. Ticker) ''svc'' ''123'' 0 []
        = Return ((TestSucceeded, None), h')"
    by (rule t2 [rule_format])
      (simp add: atPoll_def echoAtThirdRead_fails echoAtThirdRead_succeeds)
  have c: "\<exists>h'. atPoll [] 1 h' \<and>
      pollLoop neverEcho rc0 (pfAt (1, 22)) probeRegistry
        (\<lambda>i. if i = 1 then Signal else Ticker) ''svc'' ''123'' 0 []
        = Return ((TestAborted, None), h')"
    by (rule t3 [rule_format]) (simp add: neverEcho_fails)
  have w: "servicesHaveMetadata echoAtThirdRead"
    by (simp add: servicesHaveMetadata_def echoAtThirdRead_def scriptStore_def probeSvc_def)
  have d: "\<exists>x. pollLoop echoAtThirdRead rc0 (pfAt (1, 22)) probeRegistry (\<lambda>i. Ticker) ''svc'' ''123'' 0 []
          = Return x"
    using w by (rule t5 [rule_format])
  from a a' b c w d show ?thesis by (auto simp: atPoll_def)
qed


end
